theory Spec2Isabelle
  imports Complex_Main
begin

section \<open>The aggregation endpoint of \<^verbatim>\<open>server.js\<close>\<close>

text \<open>
  A shallow embedding of the request handler \<^verbatim>\<open>app.get("/api", ...)\<close> and of the helpers it
  declares: \<^verbatim>\<open>safeFetch\<close>, \<^verbatim>\<open>fetchOverpass\<close>, \<^verbatim>\<open>getLocationStats\<close>, \<^verbatim>\<open>categorizeAQI\<close>,
  \<^verbatim>\<open>getCurrentAQI\<close>, \<^verbatim>\<open>getAQIHistory\<close>, \<^verbatim>\<open>getAQISection\<close> and the two tallies over the
  elements of an Overpass answer.

  Conventions.
  \<^item> A thrown \<^verbatim>\<open>Error\<close> is its message: a fallible computation returns \<open>string + 'a\<close>, with
    \<open>Inl\<close> the message of the error thrown.
  \<^item> Every upstream service is an input: what the service answers to the call the handler
    makes. The handler returns, next to its reply, the list of upstream calls it issued.
  \<^item> Upstream payloads are typed after the fields the source reads from them; \<open>None\<close> is
    a field that is \<^verbatim>\<open>undefined\<close> or \<^verbatim>\<open>null\<close>.
  \<^item> Strings are byte strings: \<^verbatim>\<open>trim\<close> and \<^verbatim>\<open>toLowerCase\<close> are modelled on ASCII.
\<close>

subsection \<open>Numbers and strings of the language\<close>

text \<open>
  A JavaScript number: \<^verbatim>\<open>NaN\<close>, the two infinities, or a finite value (both zeros are
  \<open>Fin 0\<close>). Rounding to double precision is not modelled.
\<close>

datatype jsnum = NaN | NegInf | Fin rat | PosInf

text \<open>The relational operator \<^verbatim>\<open><=\<close> on numbers: false whenever an operand is \<^verbatim>\<open>NaN\<close>.\<close>

fun js_le :: "jsnum \<Rightarrow> jsnum \<Rightarrow> bool" where
  "js_le NaN _ = False"
| "js_le _ NaN = False"
| "js_le NegInf _ = True"
| "js_le _ PosInf = True"
| "js_le (Fin a) (Fin b) = (a \<le> b)"
| "js_le (Fin a) NegInf = False"
| "js_le PosInf _ = False"

text \<open>\<^verbatim>\<open>n || 0\<close> on a number \<open>n\<close>: the falsy numbers are \<^verbatim>\<open>NaN\<close> and zero.\<close>

definition or_zero :: "jsnum \<Rightarrow> jsnum" where
  "or_zero n = (if n = NaN \<or> n = Fin 0 then Fin 0 else n)"

text \<open>White space and line terminators that \<^verbatim>\<open>String.prototype.trim\<close> strips (ASCII).\<close>

definition isWhiteSpace :: "char \<Rightarrow> bool" where
  "isWhiteSpace c = (c \<in> set [CHR 0x09, CHR 0x0A, CHR 0x0B, CHR 0x0C, CHR 0x0D, CHR '' ''])"

definition trim :: "string \<Rightarrow> string" where
  "trim s = rev (dropWhile isWhiteSpace (rev (dropWhile isWhiteSpace s)))"

definition lower_char :: "char \<Rightarrow> char" where
  "lower_char c =
     (case map_of (zip ''ABCDEFGHIJKLMNOPQRSTUVWXYZ'' ''abcdefghijklmnopqrstuvwxyz'') c of
        Some d \<Rightarrow> d
      | None \<Rightarrow> c)"

definition toLowerCase :: "string \<Rightarrow> string" where
  "toLowerCase s = map lower_char s"

text \<open>
  \<^verbatim>\<open>Number(v)\<close> for a value that is a string or \<^verbatim>\<open>undefined\<close>. \<^verbatim>\<open>Number(undefined)\<close> is
  \<^verbatim>\<open>NaN\<close>; a string that is empty or only white space converts to zero; every other string
  is read by the language's grammar of numeric literals, which is the parameter \<open>lit\<close>
  (it answers \<^verbatim>\<open>NaN\<close> for a string that is no numeric literal).
\<close>

type_synonym numeric_literal = "string \<Rightarrow> jsnum"

definition Number :: "numeric_literal \<Rightarrow> string option \<Rightarrow> jsnum" where
  "Number lit v =
     (case v of
        None \<Rightarrow> NaN
      | Some s \<Rightarrow> if trim s = [] then Fin 0 else lit s)"

text \<open>A natural number in a template string: its decimal digits.\<close>

fun show_nat :: "nat \<Rightarrow> string" where
  "show_nat n =
     (if n < 10 then [''0123456789'' ! n]
      else show_nat (n div 10) @ [''0123456789'' ! (n mod 10)])"

subsection \<open>\<^verbatim>\<open>categorizeAQI\<close> (lines 159-167)\<close>

text \<open>
  The argument is \<^verbatim>\<open>null\<close> or \<^verbatim>\<open>undefined\<close> (\<open>None\<close>) or a number.
\<close>

definition categorizeAQI :: "jsnum option \<Rightarrow> string" where
  "categorizeAQI v =
     (case v of
        None \<Rightarrow> ''No data''
      | Some n \<Rightarrow>
          if js_le n (Fin 50) then ''Good''
          else if js_le n (Fin 100) then ''Moderate''
          else if js_le n (Fin 150) then ''Unhealthy for Sensitive Groups''
          else if js_le n (Fin 200) then ''Unhealthy''
          else if js_le n (Fin 300) then ''Very Unhealthy''
          else ''Hazardous'')"

text \<open>
  The rank of a category on the severity scale the specification orders the categories by
  (Good, Moderate, Unhealthy for Sensitive Groups, Unhealthy, Very Unhealthy, Hazardous).
\<close>

definition severity :: "string \<Rightarrow> nat" where
  "severity c =
     (if c = ''Good'' then 0
      else if c = ''Moderate'' then 1
      else if c = ''Unhealthy for Sensitive Groups'' then 2
      else if c = ''Unhealthy'' then 3
      else if c = ''Very Unhealthy'' then 4
      else 5)"

subsection \<open>\<^verbatim>\<open>fetch\<close> and \<^verbatim>\<open>safeFetch\<close> (lines 37-44)\<close>

text \<open>
  What one call of \<^verbatim>\<open>fetch\<close> does: it throws (a network error, with the runtime's message),
  or it answers with a response. Of a response the source reads \<^verbatim>\<open>ok\<close>, \<^verbatim>\<open>status\<close>,
  \<^verbatim>\<open>text()\<close> and \<^verbatim>\<open>json()\<close>; \<^verbatim>\<open>json()\<close> throws on a body that is not JSON (\<open>Inl\<close> its
  message) or gives the parsed payload; \<^verbatim>\<open>text()\<close> is taken not to throw.
\<close>

record 'b http_response =
  ok :: bool
  status :: nat
  body_text :: string
  body_json :: "string + 'b"

datatype 'b fetch_outcome = NetworkError string | Responded "'b http_response"

definition safeFetch :: "'b fetch_outcome \<Rightarrow> string + 'b" where
  "safeFetch outcome =
     (case outcome of
        NetworkError e \<Rightarrow> Inl e
      | Responded res \<Rightarrow>
          if \<not> ok res
          then Inl (''Fetch failed ('' @ show_nat (status res) @ ''): '' @ body_text res)
          else body_json res)"

subsection \<open>\<^verbatim>\<open>fetchOverpass\<close> (lines 31-35, 46-64)\<close>

definition OVERPASS_ENDPOINTS :: "string list" where
  "OVERPASS_ENDPOINTS =
     [''https://overpass-api.de/api/interpreter'',
      ''https://overpass.kumi.systems/api/interpreter'',
      ''https://overpass.nchc.org.tw/api/interpreter'']"

text \<open>
  The \<^verbatim>\<open>try\<close> block of one iteration (lines 49-58): the POST to one endpoint, the throw on a
  response that is not \<^verbatim>\<open>ok\<close>, and \<^verbatim>\<open>res.json()\<close>. \<open>None\<close> when anything in the block threw
  (the \<^verbatim>\<open>catch\<close> swallows the error), \<open>Some\<close> the value the function returns otherwise.
\<close>

definition attempt :: "'b fetch_outcome \<Rightarrow> 'b option" where
  "attempt outcome =
     (case outcome of
        NetworkError _ \<Rightarrow> None
      | Responded res \<Rightarrow>
          if \<not> ok res then None
          else (case body_json res of Inl _ \<Rightarrow> None | Inr v \<Rightarrow> Some v))"

text \<open>
  The \<^verbatim>\<open>for\<close> loop over a list of endpoints and the \<^verbatim>\<open>throw\<close> after it. \<open>post url\<close> is what
  the POST of the query to \<open>url\<close> does. The first component of the result lists the
  endpoints a POST was issued to, in the order of the calls.
\<close>

fun tryEndpoints ::
  "(string \<Rightarrow> 'b fetch_outcome) \<Rightarrow> string list \<Rightarrow> string list \<times> (string + 'b)" where
  "tryEndpoints post [] = ([], Inl ''All Overpass endpoints failed'')"
| "tryEndpoints post (url # urls) =
     (case attempt (post url) of
        Some v \<Rightarrow> ([url], Inr v)
      | None \<Rightarrow> (case tryEndpoints post urls of (tried, r) \<Rightarrow> (url # tried, r)))"

definition fetchOverpass ::
  "(string \<Rightarrow> 'q \<Rightarrow> 'b fetch_outcome) \<Rightarrow> 'q \<Rightarrow> string list \<times> (string + 'b)" where
  "fetchOverpass post query = tryEndpoints (\<lambda>url. post url query) OVERPASS_ENDPOINTS"

subsection \<open>\<^verbatim>\<open>getLocationStats\<close> (lines 100-152)\<close>

text \<open>
  A row as \<^verbatim>\<open>csv-parser\<close> hands it to the \<^verbatim>\<open>data\<close> listener: an object keyed by the header
  names, a column the row lacks being \<^verbatim>\<open>undefined\<close>.
\<close>

record csv_row =
  City :: "string option"
  District :: "string option"
  State :: "string option"
  Population :: "string option"
  Area :: "string option"

text \<open>The events of the row stream, in the order the stream emits them.\<close>

datatype stream_event = StreamData csv_row | StreamEnd | StreamError string

text \<open>
  The object the promise resolves with. \<open>name\<close> is the variable declared \<^verbatim>\<open>let name = null\<close>
  and assigned a field of the row.
\<close>

record location_stats =
  population :: jsnum
  area :: jsnum
  matchedOn :: string
  name :: "string option"

datatype 'a promise = Pending | Resolved 'a | Rejected string

text \<open>\<^verbatim>\<open>resolve\<close> and \<^verbatim>\<open>reject\<close> settle a pending promise and leave a settled one as it is.\<close>

definition resolve :: "'a \<Rightarrow> 'a promise \<Rightarrow> 'a promise" where
  "resolve v p = (case p of Pending \<Rightarrow> Resolved v | Resolved w \<Rightarrow> Resolved w | Rejected e \<Rightarrow> Rejected e)"

definition reject :: "string \<Rightarrow> 'a promise \<Rightarrow> 'a promise" where
  "reject e p = (case p of Pending \<Rightarrow> Rejected e | Resolved w \<Rightarrow> Resolved w | Rejected e' \<Rightarrow> Rejected e')"

text \<open>
  The state the listeners share: the flag \<^verbatim>\<open>resolved\<close>, whether \<^verbatim>\<open>stream.destroy()\<close> was
  called, and the promise.
\<close>

record scan_state =
  resolved :: bool
  destroyed :: bool
  settled :: "location_stats promise"

definition scan_start :: scan_state where
  "scan_start = \<lparr>resolved = False, destroyed = False, settled = Pending\<rparr>"

text \<open>\<^verbatim>\<open>v?.trim().toLowerCase()\<close>: \<^verbatim>\<open>undefined\<close> when \<open>v\<close> is.\<close>

definition trim_lower :: "string option \<Rightarrow> string option" where
  "trim_lower v = map_option (\<lambda>s. toLowerCase (trim s)) v"

text \<open>The \<^verbatim>\<open>data\<close> listener (lines 110-142).\<close>

definition on_data :: "numeric_literal \<Rightarrow> string \<Rightarrow> scan_state \<Rightarrow> csv_row \<Rightarrow> scan_state" where
  "on_data lit query st row =
     (if resolved st then st
      else
        let city = trim_lower (City row);
            district = trim_lower (District row);
            state = trim_lower (State row);
            (matchedOn', name') =
              (if city = Some query then (Some ''city'', City row)
               else if district = Some query then (Some ''district'', District row)
               else if state = Some query then (Some ''state'', State row)
               else (None, None))
        in case matchedOn' of
             None \<Rightarrow> st
           | Some m \<Rightarrow>
               st\<lparr>resolved := True,
                  destroyed := True,
                  settled :=
                    resolve
                      \<lparr>population = or_zero (Number lit (Population row)),
                       area = or_zero (Number lit (Area row)),
                       matchedOn = m,
                       name = name'\<rparr>
                      (settled st)\<rparr>)"

text \<open>The \<^verbatim>\<open>end\<close> listener (lines 144-148) and the \<^verbatim>\<open>error\<close> listener (line 150).\<close>

definition on_end :: "scan_state \<Rightarrow> scan_state" where
  "on_end st =
     (if \<not> resolved st
      then st\<lparr>settled := reject ''No matching state, district, or city found'' (settled st)\<rparr>
      else st)"

definition on_error :: "string \<Rightarrow> scan_state \<Rightarrow> scan_state" where
  "on_error e st = st\<lparr>settled := reject e (settled st)\<rparr>"

definition dispatch :: "numeric_literal \<Rightarrow> string \<Rightarrow> scan_state \<Rightarrow> stream_event \<Rightarrow> scan_state" where
  "dispatch lit query st ev =
     (case ev of
        StreamData row \<Rightarrow> on_data lit query st row
      | StreamEnd \<Rightarrow> on_end st
      | StreamError e \<Rightarrow> on_error e st)"

text \<open>
  The stream delivers its events to the listeners one after the other; a destroyed stream
  delivers nothing more. The result is the final state and the events never delivered.
\<close>

fun deliver ::
  "numeric_literal \<Rightarrow> string \<Rightarrow> scan_state \<Rightarrow> stream_event list \<Rightarrow> scan_state \<times> stream_event list" where
  "deliver lit query st [] = (st, [])"
| "deliver lit query st (ev # evs) =
     (if destroyed st then (st, ev # evs)
      else deliver lit query (dispatch lit query st ev) evs)"

text \<open>
  \<^verbatim>\<open>getLocationStats(searchValue)\<close> on a stream that emits \<open>events\<close>: the state of the promise
  it returns once the stream has nothing more to deliver.
\<close>

definition getLocationStats ::
  "numeric_literal \<Rightarrow> stream_event list \<Rightarrow> string \<Rightarrow> location_stats promise" where
  "getLocationStats lit events searchValue =
     settled (fst (deliver lit (toLowerCase (trim searchValue)) scan_start events))"

text \<open>
  The claims' words for a row that matches a query: one of its City, District and State
  fields, trimmed and lowercased, equals the query.
\<close>

definition row_matches :: "string \<Rightarrow> csv_row \<Rightarrow> bool" where
  "row_matches q row =
     (trim_lower (City row) = Some q
      \<or> trim_lower (District row) = Some q
      \<or> trim_lower (State row) = Some q)"

text \<open>
  The claims' words for the answer a matching row gives: the field matched is the first of
  City, District, State that equals the query, and the name is that field as the file
  has it.
\<close>

definition stats_of_row :: "numeric_literal \<Rightarrow> string \<Rightarrow> csv_row \<Rightarrow> location_stats" where
  "stats_of_row lit q row =
     \<lparr>population = or_zero (Number lit (Population row)),
      area = or_zero (Number lit (Area row)),
      matchedOn =
        (if trim_lower (City row) = Some q then ''city''
         else if trim_lower (District row) = Some q then ''district''
         else ''state''),
      name =
        (if trim_lower (City row) = Some q then City row
         else if trim_lower (District row) = Some q then District row
         else State row)\<rparr>"

subsection \<open>Air quality (lines 172-257)\<close>

text \<open>
  The reading \<^verbatim>\<open>getCurrentAQI\<close> returns. \<open>pollutants\<close> is an object: its keys with their
  values, in the order the source writes them; \<open>[]\<close> is \<^verbatim>\<open>{}\<close>.
\<close>

record aqi_reading =
  aqi :: "jsnum option"
  category :: string
  pollutants :: "(string \<times> jsnum option) list"
  dominentPollutant :: "string option"
  time :: "string option"

text \<open>
  The payload of the WAQI feed, as far as the source reads it: \<^verbatim>\<open>data.status\<close>,
  \<^verbatim>\<open>data.data\<close> and, of the latter, \<^verbatim>\<open>aqi\<close>, \<^verbatim>\<open>iaqi\<close> (each pollutant's \<^verbatim>\<open>v\<close>, \<open>None\<close>
  when the pollutant or its \<^verbatim>\<open>v\<close> is missing), \<^verbatim>\<open>dominentpol\<close> and \<^verbatim>\<open>time.s\<close>.
\<close>

record waqi_feed =
  feed_aqi :: "jsnum option"
  iaqi :: "(string \<Rightarrow> jsnum option) option"
  dominentpol :: "string option"
  time_s :: "string option"

record waqi_payload =
  feed_status :: "string option"
  feed_data :: "waqi_feed option"

text \<open>The object both degraded paths return (lines 182-188 and 208-214).\<close>

definition no_data_reading :: aqi_reading where
  "no_data_reading =
     \<lparr>aqi = None, category = ''No data'', pollutants = [], dominentPollutant = None,
      time = None\<rparr>"

text \<open>\<^verbatim>\<open>s || null\<close> on a string that may be missing: the empty string is falsy.\<close>

definition or_null :: "string option \<Rightarrow> string option" where
  "or_null v = (case v of None \<Rightarrow> None | Some s \<Rightarrow> if s = [] then None else Some s)"

text \<open>
  \<^verbatim>\<open>getCurrentAQI\<close> (lines 172-216), given what its \<^verbatim>\<open>fetch\<close> does. The response's \<^verbatim>\<open>ok\<close> is
  not read. A throw of \<^verbatim>\<open>fetch\<close> or of \<^verbatim>\<open>res.json()\<close> lands in the \<^verbatim>\<open>catch\<close>.
\<close>

definition getCurrentAQI :: "waqi_payload fetch_outcome \<Rightarrow> aqi_reading" where
  "getCurrentAQI outcome =
     (case outcome of
        NetworkError _ \<Rightarrow> no_data_reading
      | Responded res \<Rightarrow>
          (case body_json res of
             Inl _ \<Rightarrow> no_data_reading
           | Inr d \<Rightarrow>
               if feed_status d \<noteq> Some ''ok'' then no_data_reading
               else
                 (case feed_data d of
                    None \<Rightarrow> no_data_reading
                  | Some f \<Rightarrow>
                      let i = (case iaqi f of None \<Rightarrow> (\<lambda>_. None) | Some m \<Rightarrow> m) in
                      \<lparr>aqi = feed_aqi f,
                       category = categorizeAQI (feed_aqi f),
                       pollutants =
                         [(''pm25'', i ''pm25''), (''pm10'', i ''pm10''), (''no2'', i ''no2''),
                          (''so2'', i ''so2''), (''o3'', i ''o3''), (''co'', i ''co'')],
                       dominentPollutant = or_null (dominentpol f),
                       time = or_null (time_s f)\<rparr>)))"

text \<open>
  The payload of the hourly air-quality service: \<^verbatim>\<open>data.hourly\<close> with its arrays \<^verbatim>\<open>time\<close>
  and \<^verbatim>\<open>pm2_5\<close> (an entry of \<^verbatim>\<open>pm2_5\<close> may be \<^verbatim>\<open>null\<close>).
\<close>

record hourly_series =
  hourly_time :: "string list option"
  pm2_5 :: "jsnum option list option"

record air_quality_payload =
  hourly :: "hourly_series option"

text \<open>One point of the history; \<open>point_aqi\<close> is its key \<^verbatim>\<open>aqi\<close>.\<close>

record history_point =
  timestamp :: "string option"
  pm25 :: "jsnum option"
  point_aqi :: string

text \<open>
  \<^verbatim>\<open>getAQIHistory\<close> (lines 221-239). \<^verbatim>\<open>data.hourly.time[idx]\<close> is \<^verbatim>\<open>undefined\<close> past the end of
  the array. When \<^verbatim>\<open>data.hourly.time\<close> is missing, the first call of the callback throws a
  \<^verbatim>\<open>TypeError\<close> and the \<^verbatim>\<open>catch\<close> returns \<^verbatim>\<open>[]\<close>; with no entry to map the result is \<^verbatim>\<open>[]\<close>
  as well.
\<close>

definition getAQIHistory :: "air_quality_payload fetch_outcome \<Rightarrow> history_point list" where
  "getAQIHistory outcome =
     (case outcome of
        NetworkError _ \<Rightarrow> []
      | Responded res \<Rightarrow>
          (case body_json res of
             Inl _ \<Rightarrow> []
           | Inr d \<Rightarrow>
               (case hourly d of
                  None \<Rightarrow> []
                | Some h \<Rightarrow>
                    (case pm2_5 h of
                       None \<Rightarrow> []
                     | Some ps \<Rightarrow>
                         (case hourly_time h of
                            None \<Rightarrow> []
                          | Some ts \<Rightarrow>
                              map (\<lambda>(idx, p).
                                     \<lparr>timestamp = (if idx < length ts then Some (ts ! idx) else None),
                                      pm25 = p,
                                      point_aqi = categorizeAQI p\<rparr>)
                                  (enumerate 0 ps))))))"

record aqi_section =
  currentAQI :: aqi_reading
  history :: "history_point list"

text \<open>\<^verbatim>\<open>getAQISection\<close> (lines 244-252): neither call it awaits can throw.\<close>

definition getAQISection ::
  "waqi_payload fetch_outcome \<Rightarrow> air_quality_payload fetch_outcome \<Rightarrow> aqi_section" where
  "getAQISection cur hist = \<lparr>currentAQI = getCurrentAQI cur, history = getAQIHistory hist\<rparr>"

text \<open>
  A value of the variable \<^verbatim>\<open>airQualityString\<close> (line 253): the empty string it is
  initialised with, or the section the detached task assigns to it (line 256).
\<close>

datatype air_quality = EmptyString | Section aqi_section

subsection \<open>The tallies (lines 284-357)\<close>

text \<open>
  An element of an Overpass answer: its \<^verbatim>\<open>tags\<close>, an object from tag keys to strings, or no
  \<^verbatim>\<open>tags\<close> at all.
\<close>

record element =
  tags :: "(string \<Rightarrow> string option) option"

record overpass_payload =
  elements :: "element list"

text \<open>
  A \<^verbatim>\<open>Set\<close> of strings is the list of its members in insertion order. \<^verbatim>\<open>add\<close> appends a
  value that is not a member yet, \<^verbatim>\<open>size\<close> is the number of members, and the spread
  \<^verbatim>\<open>[...s]\<close> lists the members in insertion order.
\<close>

definition set_add :: "'a list \<Rightarrow> 'a \<Rightarrow> 'a list" where
  "set_add s x = (if x \<in> set s then s else s @ [x])"

definition set_size :: "'a list \<Rightarrow> nat" where
  "set_size s = card (set s)"

definition spread :: "'a list \<Rightarrow> 'a list" where
  "spread s = s"

record infra =
  hospitals :: "string list"
  schools :: "string list"
  colleges :: "string list"
  railwayStations :: "string list"
  metroStations :: "string list"

definition infra_new :: infra where
  "infra_new =
     \<lparr>hospitals = [], schools = [], colleges = [], railwayStations = [], metroStations = []\<rparr>"

text \<open>\<^verbatim>\<open>el.tags || {}\<close>.\<close>

definition tags_of :: "element \<Rightarrow> string \<Rightarrow> string option" where
  "tags_of el = (case tags el of None \<Rightarrow> (\<lambda>_. None) | Some m \<Rightarrow> m)"

text \<open>
  The callback of \<^verbatim>\<open>infraData.elements.forEach\<close> (lines 292-313). \<^verbatim>\<open>!t.name\<close> holds of a
  missing name and of the empty string.
\<close>

definition infra_visit :: "infra \<Rightarrow> element \<Rightarrow> infra" where
  "infra_visit acc el =
     (let t = tags_of el in
      case t ''name'' of
        None \<Rightarrow> acc
      | Some n \<Rightarrow>
          if n = [] then acc
          else
            let a1 = (if t ''amenity'' = Some ''hospital''
                      then acc\<lparr>hospitals := set_add (hospitals acc) n\<rparr> else acc);
                a2 = (if t ''amenity'' = Some ''school''
                      then a1\<lparr>schools := set_add (schools a1) n\<rparr> else a1);
                a3 = (if t ''amenity'' = Some ''college''
                      then a2\<lparr>colleges := set_add (colleges a2) n\<rparr> else a2);
                a4 = (if t ''railway'' = Some ''station'' \<and> t ''station'' \<noteq> Some ''subway''
                      then a3\<lparr>railwayStations := set_add (railwayStations a3) n\<rparr> else a3);
                a5 = (if t ''station'' = Some ''subway''
                         \<or> t ''railway'' = Some ''subway_entrance''
                         \<or> (t ''public_transport'' = Some ''station'' \<and> t ''subway'' = Some ''yes'')
                      then a4\<lparr>metroStations := set_add (metroStations a4) n\<rparr> else a4)
            in a5)"

definition infra_of :: "element list \<Rightarrow> infra" where
  "infra_of els = foldl infra_visit infra_new els"

text \<open>
  The object \<^verbatim>\<open>infrastructure\<close> (lines 314-327). The count fields are its keys
  \<^verbatim>\<open>hospitals\<close>, ..., \<^verbatim>\<open>metroStations\<close>; the fields of \<open>names\<close> are the keys of the same names
  under \<^verbatim>\<open>names\<close>.
\<close>

record infra_names =
  hospitals_names :: "string list"
  schools_names :: "string list"
  colleges_names :: "string list"
  railwayStations_names :: "string list"
  metroStations_names :: "string list"

record infrastructure_json =
  hospitals_count :: nat
  schools_count :: nat
  colleges_count :: nat
  railwayStations_count :: nat
  metroStations_count :: nat
  names :: infra_names

definition infrastructure_of :: "infra \<Rightarrow> infrastructure_json" where
  "infrastructure_of i =
     \<lparr>hospitals_count = set_size (hospitals i),
      schools_count = set_size (schools i),
      colleges_count = set_size (colleges i),
      railwayStations_count = set_size (railwayStations i),
      metroStations_count = set_size (metroStations i),
      names =
        \<lparr>hospitals_names = spread (hospitals i),
         schools_names = spread (schools i),
         colleges_names = spread (colleges i),
         railwayStations_names = spread (railwayStations i),
         metroStations_names = spread (metroStations i)\<rparr>\<rparr>"

text \<open>The two sets of the water tally and the callback of its \<^verbatim>\<open>forEach\<close> (lines 344-352).\<close>

record water =
  rivers :: "string list"
  others :: "string list"

definition water_new :: water where
  "water_new = \<lparr>rivers = [], others = []\<rparr>"

definition water_visit :: "water \<Rightarrow> element \<Rightarrow> water" where
  "water_visit acc el =
     (let t = tags_of el in
      case t ''name'' of
        None \<Rightarrow> acc
      | Some n \<Rightarrow>
          if n = [] then acc
          else if t ''waterway'' = Some ''river''
          then acc\<lparr>rivers := set_add (rivers acc) n\<rparr>
          else acc\<lparr>others := set_add (others acc) n\<rparr>)"

definition water_of :: "element list \<Rightarrow> water" where
  "water_of els = foldl water_visit water_new els"

text \<open>The object \<^verbatim>\<open>waterBodies\<close> (lines 354-357): each group has its \<^verbatim>\<open>count\<close> and \<^verbatim>\<open>names\<close>.\<close>

record water_group =
  group_count :: nat
  group_names :: "string list"

record waterBodies_json =
  rivers_group :: water_group
  otherWaterBodies :: water_group

definition waterBodies_of :: "water \<Rightarrow> waterBodies_json" where
  "waterBodies_of w =
     \<lparr>rivers_group = \<lparr>group_count = set_size (rivers w), group_names = spread (rivers w)\<rparr>,
      otherWaterBodies = \<lparr>group_count = set_size (others w), group_names = spread (others w)\<rparr>\<rparr>"

subsection \<open>The handler of \<^verbatim>\<open>GET /api\<close> (lines 67-390)\<close>

text \<open>The first result of the place search, as far as the source reads it.\<close>

record place =
  lat_text :: string
  lon_text :: string
  display_name :: string

text \<open>The two Overpass queries: the templates of lines 262-280 and 333-340 at \<open>lat\<close>, \<open>lon\<close>.\<close>

datatype overpass_query = InfraQuery jsnum jsnum | WaterQuery jsnum jsnum

text \<open>
  The world one request runs in: what each upstream service does when called with the
  parameters the handler puts into the URL, the events the stream of
  \<^verbatim>\<open>data/final_cities.csv\<close> emits, and \<open>aqi_assigned\<close>: whether the detached task of lines
  254-257, which nothing awaits, has reached its assignment to \<^verbatim>\<open>airQualityString\<close> by the
  time the handler reads that variable (line 380). The payloads of the weather service and
  of the encyclopedia are passed through unread; their types are parameters.
\<close>

record ('w, 'k) upstream =
  nominatim :: "string \<Rightarrow> place list fetch_outcome"
  open_meteo :: "jsnum \<Rightarrow> jsnum \<Rightarrow> 'w fetch_outcome"
  final_cities :: "stream_event list"
  waqi :: "jsnum \<Rightarrow> jsnum \<Rightarrow> waqi_payload fetch_outcome"
  air_quality_api :: "jsnum \<Rightarrow> jsnum \<Rightarrow> air_quality_payload fetch_outcome"
  overpass :: "string \<Rightarrow> overpass_query \<Rightarrow> overpass_payload fetch_outcome"
  wikipedia_api :: "string \<Rightarrow> 'k fetch_outcome"
  aqi_assigned :: bool

text \<open>
  An upstream call of the request. The two calls of the detached task are listed where
  the task is started; how they interleave with the handler's later calls is not modelled.
\<close>

datatype upstream_call =
    Geocode string
  | Forecast jsnum jsnum
  | ReadDataset string
  | CurrentAQI jsnum jsnum
  | AQIHistory jsnum jsnum
  | Overpass string overpass_query
  | Wikipedia string

record city_json =
  city_name :: string
  displayName :: string
  lat :: jsnum
  lon :: jsnum

text \<open>
  The object of lines 370-384. \<open>report_population\<close> and \<open>report_area\<close> are its keys
  \<^verbatim>\<open>population\<close> and \<^verbatim>\<open>area\<close>.
\<close>

record ('w, 'k) report =
  city :: city_json
  report_population :: jsnum
  report_area :: jsnum
  weather :: 'w
  airQuality :: air_quality
  infrastructure :: infrastructure_json
  waterBodies :: waterBodies_json
  wikipedia :: 'k

datatype ('w, 'k) body = ErrorBody string | ReportBody "('w, 'k) report"

text \<open>
  What the client gets: a status with a JSON body, or nothing when the handler waits for
  a promise that never settles.
\<close>

datatype ('w, 'k) reply = Reply nat "('w, 'k) body" | NoReply

text \<open>
  The handler, as it runs once the rate limiter has let the request through. The query
  parameter \<^verbatim>\<open>city\<close> is absent (\<open>None\<close>) or a string. Every \<^verbatim>\<open>throw\<close> inside the \<^verbatim>\<open>try\<close> ends
  in the \<^verbatim>\<open>catch\<close> of lines 386-389: status 500 with the error's message.
  \<^verbatim>\<open>display_name.split(",")[0]\<close> is the text before the first comma. The detached task of
  lines 254-257 is started after the dataset lookup has resolved; its result reaches the
  report only through the variable \<^verbatim>\<open>airQualityString\<close>.
\<close>

definition handler ::
  "numeric_literal \<Rightarrow> ('w, 'k) upstream \<Rightarrow> string option \<Rightarrow> upstream_call list \<times> ('w, 'k) reply" where
  "handler lit up cityName =
     (case cityName of
        None \<Rightarrow> ([], Reply 400 (ErrorBody ''City is required''))
      | Some cn \<Rightarrow>
          if cn = [] then ([], Reply 400 (ErrorBody ''City is required''))
          else
            (case safeFetch (nominatim up cn) of
               Inl e \<Rightarrow> ([Geocode cn], Reply 500 (ErrorBody e))
             | Inr [] \<Rightarrow> ([Geocode cn], Reply 500 (ErrorBody ''City not found''))
             | Inr (c # _) \<Rightarrow>
                 let la = Number lit (Some (lat_text c));
                     lo = Number lit (Some (lon_text c));
                     calls2 = [Geocode cn, Forecast la lo]
                 in
                 (case safeFetch (open_meteo up la lo) of
                    Inl e \<Rightarrow> (calls2, Reply 500 (ErrorBody e))
                  | Inr w \<Rightarrow>
                      let place_name = trim (takeWhile (\<lambda>ch. ch \<noteq> CHR '','') (display_name c));
                          calls3 = calls2 @ [ReadDataset place_name]
                      in
                      (case getLocationStats lit (final_cities up) place_name of
                         Pending \<Rightarrow> (calls3, NoReply)
                       | Rejected e \<Rightarrow> (calls3, Reply 500 (ErrorBody e))
                       | Resolved locationStats \<Rightarrow>
                           let airQualityString =
                                 (if aqi_assigned up
                                  then Section (getAQISection (waqi up la lo) (air_quality_api up la lo))
                                  else EmptyString);
                               calls4 = calls3 @ [CurrentAQI la lo, AQIHistory la lo]
                           in
                           (case fetchOverpass (overpass up) (InfraQuery la lo) of
                              (tried1, Inl e) \<Rightarrow>
                                (calls4 @ map (\<lambda>u. Overpass u (InfraQuery la lo)) tried1,
                                 Reply 500 (ErrorBody e))
                            | (tried1, Inr infraData) \<Rightarrow>
                                let calls5 = calls4 @ map (\<lambda>u. Overpass u (InfraQuery la lo)) tried1 in
                                (case fetchOverpass (overpass up) (WaterQuery la lo) of
                                   (tried2, Inl e) \<Rightarrow>
                                     (calls5 @ map (\<lambda>u. Overpass u (WaterQuery la lo)) tried2,
                                      Reply 500 (ErrorBody e))
                                 | (tried2, Inr waterData) \<Rightarrow>
                                     let calls6 =
                                           calls5 @ map (\<lambda>u. Overpass u (WaterQuery la lo)) tried2
                                             @ [Wikipedia cn]
                                     in
                                     (case safeFetch (wikipedia_api up cn) of
                                        Inl e \<Rightarrow> (calls6, Reply 500 (ErrorBody e))
                                      | Inr wiki \<Rightarrow>
                                          (calls6,
                                           Reply 200
                                             (ReportBody
                                                \<lparr>city =
                                                   \<lparr>city_name = cn,
                                                    displayName = display_name c,
                                                    lat = la,
                                                    lon = lo\<rparr>,
                                                 report_population = population locationStats,
                                                 report_area = area locationStats,
                                                 weather = w,
                                                 airQuality = airQualityString,
                                                 infrastructure =
                                                   infrastructure_of (infra_of (elements infraData)),
                                                 waterBodies =
                                                   waterBodies_of (water_of (elements waterData)),
                                                 wikipedia = wiki\<rparr>)))))))))"

subsection \<open>Vocabulary of the claims\<close>

text \<open>A point has the name \<open>n\<close>: its \<^verbatim>\<open>name\<close> tag is the non-empty string \<open>n\<close>.\<close>

definition has_name :: "element \<Rightarrow> string \<Rightarrow> bool" where
  "has_name el n \<longleftrightarrow> tags_of el ''name'' = Some n \<and> n \<noteq> []"

text \<open>The names of the points of a list that satisfy \<open>P\<close>.\<close>

definition names_where :: "(element \<Rightarrow> bool) \<Rightarrow> element list \<Rightarrow> string set" where
  "names_where P els = {n. \<exists>el\<in>set els. has_name el n \<and> P el}"

text \<open>The classification rules of the specification, on the tags of a point.\<close>

definition is_hospital :: "element \<Rightarrow> bool" where
  "is_hospital el \<longleftrightarrow> tags_of el ''amenity'' = Some ''hospital''"

definition is_school :: "element \<Rightarrow> bool" where
  "is_school el \<longleftrightarrow> tags_of el ''amenity'' = Some ''school''"

definition is_college :: "element \<Rightarrow> bool" where
  "is_college el \<longleftrightarrow> tags_of el ''amenity'' = Some ''college''"

definition is_railway_station :: "element \<Rightarrow> bool" where
  "is_railway_station el \<longleftrightarrow>
     tags_of el ''railway'' = Some ''station'' \<and> tags_of el ''station'' \<noteq> Some ''subway''"

definition is_metro_station :: "element \<Rightarrow> bool" where
  "is_metro_station el \<longleftrightarrow>
     tags_of el ''station'' = Some ''subway''
     \<or> tags_of el ''railway'' = Some ''subway_entrance''
     \<or> (tags_of el ''public_transport'' = Some ''station'' \<and> tags_of el ''subway'' = Some ''yes'')"

text \<open>
  The name a visit of the point adds to a set whose rule is \<open>P\<close>, if it adds one.
\<close>

definition pick :: "(element \<Rightarrow> bool) \<Rightarrow> element \<Rightarrow> string option" where
  "pick P el =
     (case tags_of el ''name'' of
        None \<Rightarrow> None
      | Some n \<Rightarrow> if n \<noteq> [] \<and> P el then Some n else None)"

subsection \<open>A sample request\<close>

text \<open>
  A request for Delhi in a world where every service answers. The numeric literals that
  occur in it are read as the language reads them.
\<close>

definition sample_lit :: numeric_literal where
  "sample_lit s =
     (if s = ''28.6139'' then Fin (286139 / 10000)
      else if s = ''77.2090'' then Fin (77209 / 1000)
      else if s = ''16787941'' then Fin 16787941
      else if s = ''1484'' then Fin 1484
      else NaN)"

definition answer :: "'b \<Rightarrow> 'b fetch_outcome" where
  "answer v = Responded \<lparr>ok = True, status = 200, body_text = [], body_json = Inr v\<rparr>"

definition row_mumbai :: csv_row where
  "row_mumbai =
     \<lparr>City = Some ''Mumbai'', District = Some ''Mumbai'', State = Some ''Maharashtra'',
      Population = Some ''12442373'', Area = Some ''603''\<rparr>"

definition row_delhi :: csv_row where
  "row_delhi =
     \<lparr>City = Some '' Delhi '', District = Some ''New Delhi'', State = Some ''Delhi'',
      Population = Some ''16787941'', Area = Some ''1484''\<rparr>"

definition row_new_delhi :: csv_row where
  "row_new_delhi =
     \<lparr>City = Some ''New Delhi'', District = Some ''Delhi'', State = Some ''Delhi'',
      Population = Some ''257803'', Area = Some ''42.7''\<rparr>"

text \<open>A row that lacks columns and whose population is no number.\<close>

definition row_agra :: csv_row where
  "row_agra =
     \<lparr>City = Some ''Agra'', District = None, State = Some ''Uttar Pradesh'',
      Population = Some ''n/a'', Area = None\<rparr>"

definition sample_rows :: "csv_row list" where
  "sample_rows = [row_mumbai, row_delhi, row_new_delhi, row_agra]"

definition poi :: "(string \<times> string) list \<Rightarrow> element" where
  "poi kvs = \<lparr>tags = Some (map_of kvs)\<rparr>"

definition sample_points :: "element list" where
  "sample_points =
     [poi [(''name'', ''City Hospital''), (''amenity'', ''hospital'')],
      poi [(''name'', ''City Hospital''), (''amenity'', ''hospital'')],
      poi [(''name'', ''city hospital''), (''amenity'', ''hospital'')],
      poi [(''amenity'', ''hospital'')],
      \<lparr>tags = None\<rparr>,
      poi [(''name'', ''New Delhi''), (''railway'', ''station'')],
      poi [(''name'', ''Rajiv Chowk''), (''railway'', ''station''), (''station'', ''subway'')],
      poi [(''name'', ''Gate 2''), (''railway'', ''subway_entrance'')]]"

definition sample_waters :: "element list" where
  "sample_waters =
     [poi [(''name'', ''Yamuna''), (''waterway'', ''river'')],
      poi [(''name'', ''Yamuna''), (''waterway'', ''river'')],
      poi [(''name'', ''Najafgarh Drain''), (''waterway'', ''drain'')],
      poi [(''natural'', ''water'')]]"

text \<open>
  Three mirrors of which only the last answers: the first throws, the second answers with
  status 504. And three mirrors that all throw.
\<close>

definition last_mirror_only :: "string \<Rightarrow> overpass_payload fetch_outcome" where
  "last_mirror_only url =
     (if url = ''https://overpass-api.de/api/interpreter'' then NetworkError ''fetch failed''
      else if url = ''https://overpass.kumi.systems/api/interpreter''
      then Responded \<lparr>ok = False, status = 504, body_text = ''Gateway Timeout'',
                      body_json = Inl ''Unexpected token G in JSON at position 0''\<rparr>
      else answer \<lparr>elements = sample_points\<rparr>)"

definition no_mirror :: "string \<Rightarrow> overpass_payload fetch_outcome" where
  "no_mirror url = NetworkError ''fetch failed''"

definition sample_feed :: waqi_payload where
  "sample_feed =
     \<lparr>feed_status = Some ''ok'',
      feed_data =
        Some \<lparr>feed_aqi = Some (Fin 152),
              iaqi = Some (map_of [(''pm25'', Fin 152), (''pm10'', Fin 90)]),
              dominentpol = Some ''pm25'',
              time_s = Some ''2024-01-01 10:00:00''\<rparr>\<rparr>"

definition sample_hourly :: air_quality_payload where
  "sample_hourly =
     \<lparr>hourly =
        Some \<lparr>hourly_time = Some [''2024-01-01T00:00'', ''2024-01-01T01:00''],
              pm2_5 = Some [Some (Fin 40), None]\<rparr>\<rparr>"

definition sample_world :: "bool \<Rightarrow> (string, string) upstream" where
  "sample_world assigned =
     \<lparr>nominatim =
        (\<lambda>_. answer [\<lparr>lat_text = ''28.6139'', lon_text = ''77.2090'',
                       display_name = ''Delhi, India''\<rparr>]),
      open_meteo = (\<lambda>_ _. answer ''forecast''),
      final_cities = map StreamData sample_rows @ [StreamEnd],
      waqi = (\<lambda>_ _. answer sample_feed),
      air_quality_api = (\<lambda>_ _. answer sample_hourly),
      overpass =
        (\<lambda>_ q. case q of
                  InfraQuery _ _ \<Rightarrow> answer \<lparr>elements = sample_points\<rparr>
                | WaterQuery _ _ \<Rightarrow> answer \<lparr>elements = sample_waters\<rparr>),
      wikipedia_api = (\<lambda>_. answer ''summary''),
      aqi_assigned = assigned\<rparr>"

definition sample_section :: aqi_section where
  "sample_section =
     \<lparr>currentAQI =
        \<lparr>aqi = Some (Fin 152),
         category = ''Unhealthy'',
         pollutants =
           [(''pm25'', Some (Fin 152)), (''pm10'', Some (Fin 90)), (''no2'', None),
            (''so2'', None), (''o3'', None), (''co'', None)],
         dominentPollutant = Some ''pm25'',
         time = Some ''2024-01-01 10:00:00''\<rparr>,
      history =
        [\<lparr>timestamp = Some ''2024-01-01T00:00'', pm25 = Some (Fin 40), point_aqi = ''Good''\<rparr>,
         \<lparr>timestamp = Some ''2024-01-01T01:00'', pm25 = None, point_aqi = ''No data''\<rparr>]\<rparr>"

definition sample_report :: "air_quality \<Rightarrow> (string, string) report" where
  "sample_report aq =
     \<lparr>city =
        \<lparr>city_name = ''Delhi'', displayName = ''Delhi, India'',
         lat = Fin (286139 / 10000), lon = Fin (77209 / 1000)\<rparr>,
      report_population = Fin 16787941,
      report_area = Fin 1484,
      weather = ''forecast'',
      airQuality = aq,
      infrastructure =
        \<lparr>hospitals_count = 2, schools_count = 0, colleges_count = 0,
         railwayStations_count = 1, metroStations_count = 2,
         names =
           \<lparr>hospitals_names = [''City Hospital'', ''city hospital''],
            schools_names = [], colleges_names = [],
            railwayStations_names = [''New Delhi''],
            metroStations_names = [''Rajiv Chowk'', ''Gate 2'']\<rparr>\<rparr>,
      waterBodies =
        \<lparr>rivers_group = \<lparr>group_count = 1, group_names = [''Yamuna'']\<rparr>,
         otherWaterBodies = \<lparr>group_count = 1, group_names = [''Najafgarh Drain'']\<rparr>\<rparr>,
      wikipedia = ''summary''\<rparr>"

definition sample_calls :: "upstream_call list" where
  "sample_calls =
     [Geocode ''Delhi'',
      Forecast (Fin (286139 / 10000)) (Fin (77209 / 1000)),
      ReadDataset ''Delhi'',
      CurrentAQI (Fin (286139 / 10000)) (Fin (77209 / 1000)),
      AQIHistory (Fin (286139 / 10000)) (Fin (77209 / 1000)),
      Overpass ''https://overpass-api.de/api/interpreter''
        (InfraQuery (Fin (286139 / 10000)) (Fin (77209 / 1000))),
      Overpass ''https://overpass-api.de/api/interpreter''
        (WaterQuery (Fin (286139 / 10000)) (Fin (77209 / 1000))),
      Wikipedia ''Delhi'']"

subsection \<open>Numbers in the JSON of a reply\<close>








section \<open>Properties\<close>

subsection \<open>AQI categories\<close>

lemma categorizeAQI_Fin:
  "categorizeAQI (Some (Fin x)) =
     (if x \<le> 50 then ''Good''
      else if x \<le> 100 then ''Moderate''
      else if x \<le> 150 then ''Unhealthy for Sensitive Groups''
      else if x \<le> 200 then ''Unhealthy''
      else if x \<le> 300 then ''Very Unhealthy''
      else ''Hazardous'')"
  by (simp add: categorizeAQI_def)

lemma severity_categorizeAQI_Fin:
  "severity (categorizeAQI (Some (Fin x))) =
     (if x \<le> 50 then 0 else if x \<le> 100 then 1 else if x \<le> 150 then 2
      else if x \<le> 200 then 3 else if x \<le> 300 then 4 else 5)"
  by (simp add: categorizeAQI_Fin severity_def)

lemma severity_categorizeAQI_inf:
  "severity (categorizeAQI (Some NegInf)) = 0"
  "severity (categorizeAQI (Some PosInf)) = 5"
  by (simp_all add: categorizeAQI_def severity_def)

lemma severity_le_5: "severity c \<le> 5"
  by (simp add: severity_def)

lemma categorizeAQI_mono:
  assumes "js_le v w"
  shows "severity (categorizeAQI (Some v)) \<le> severity (categorizeAQI (Some w))"
proof (cases v)
  case NaN
  with assms show ?thesis by simp
next
  case NegInf
  then show ?thesis by (simp add: severity_categorizeAQI_inf)
next
  case PosInf
  with assms have "w = PosInf" by (cases w) simp_all
  with PosInf show ?thesis by simp
next
  case (Fin x)
  show ?thesis
  proof (cases w)
    case NaN
    with assms Fin show ?thesis by simp
  next
    case NegInf
    with assms Fin show ?thesis by simp
  next
    case PosInf
    then show ?thesis by (simp add: severity_categorizeAQI_inf severity_le_5)
  next
    case (Fin y)
    with assms \<open>v = Fin x\<close> have "x \<le> y" by simp
    then show ?thesis
      unfolding Fin \<open>v = Fin x\<close> severity_categorizeAQI_Fin by auto
  qed
qed

text \<open>
  Claim C5. \<^verbatim>\<open>categorizeAQI\<close> is a function of its argument alone. A \<^verbatim>\<open>null\<close> AQI gives
  \<^verbatim>\<open>No data\<close>, and no number does. On a finite value \<open>x\<close> the boundaries are exact:
  \<open>x \<le> 50\<close> is Good, \<open>50 < x \<le> 100\<close> Moderate, \<open>100 < x \<le> 150\<close> Unhealthy for Sensitive
  Groups, \<open>150 < x \<le> 200\<close> Unhealthy, \<open>200 < x \<le> 300\<close> Very Unhealthy and \<open>300 < x\<close>
  Hazardous. Whenever \<^verbatim>\<open>v <= w\<close> holds of two numbers, the category of \<open>w\<close> is at least as
  severe as that of \<open>v\<close>.
\<close>

theorem categorizeAQI_boundaries:
  "categorizeAQI None = ''No data''
   \<and> categorizeAQI (Some n) \<noteq> ''No data''
   \<and> (categorizeAQI (Some (Fin x)) = ''Good'' \<longleftrightarrow> x \<le> 50)
   \<and> (categorizeAQI (Some (Fin x)) = ''Moderate'' \<longleftrightarrow> 50 < x \<and> x \<le> 100)
   \<and> (categorizeAQI (Some (Fin x)) = ''Unhealthy for Sensitive Groups'' \<longleftrightarrow> 100 < x \<and> x \<le> 150)
   \<and> (categorizeAQI (Some (Fin x)) = ''Unhealthy'' \<longleftrightarrow> 150 < x \<and> x \<le> 200)
   \<and> (categorizeAQI (Some (Fin x)) = ''Very Unhealthy'' \<longleftrightarrow> 200 < x \<and> x \<le> 300)
   \<and> (categorizeAQI (Some (Fin x)) = ''Hazardous'' \<longleftrightarrow> 300 < x)
   \<and> (js_le v w \<longrightarrow> severity (categorizeAQI (Some v)) \<le> severity (categorizeAQI (Some w)))"
proof -
  have a: "categorizeAQI None = ''No data''"
    by (simp add: categorizeAQI_def)
  have b: "categorizeAQI (Some n) \<noteq> ''No data''"
    by (simp add: categorizeAQI_def)
  have c: "categorizeAQI (Some (Fin x)) = ''Good'' \<longleftrightarrow> x \<le> 50"
    by (simp add: categorizeAQI_Fin)
  have d: "categorizeAQI (Some (Fin x)) = ''Moderate'' \<longleftrightarrow> 50 < x \<and> x \<le> 100"
    by (simp add: categorizeAQI_Fin)
  have e: "categorizeAQI (Some (Fin x)) = ''Unhealthy for Sensitive Groups'' \<longleftrightarrow> 100 < x \<and> x \<le> 150"
    by (simp add: categorizeAQI_Fin)
  have f: "categorizeAQI (Some (Fin x)) = ''Unhealthy'' \<longleftrightarrow> 150 < x \<and> x \<le> 200"
    by (simp add: categorizeAQI_Fin)
  have g: "categorizeAQI (Some (Fin x)) = ''Very Unhealthy'' \<longleftrightarrow> 200 < x \<and> x \<le> 300"
    by (simp add: categorizeAQI_Fin)
  have h: "categorizeAQI (Some (Fin x)) = ''Hazardous'' \<longleftrightarrow> 300 < x"
    by (simp add: categorizeAQI_Fin)
  have i: "js_le v w \<longrightarrow> severity (categorizeAQI (Some v)) \<le> severity (categorizeAQI (Some w))"
    using categorizeAQI_mono by blast
  from a b c d e f g h i show ?thesis by blast
qed

theorem categorizeAQI_boundaries_witness:
  "js_le (Fin 50) (Fin 51)
   \<and> categorizeAQI (Some (Fin 50)) = ''Good''
   \<and> categorizeAQI (Some (Fin 51)) = ''Moderate''
   \<and> severity (categorizeAQI (Some (Fin 50))) \<le> severity (categorizeAQI (Some (Fin 51)))"
proof -
  note t = categorizeAQI_boundaries [of "Fin 50" 50 "Fin 50" "Fin 51"]
  have le: "js_le (Fin 50) (Fin 51)" by simp
  have m: "categorizeAQI (Some (Fin 51)) = ''Moderate''"
    by (simp add: categorizeAQI_Fin)
  from t have g: "categorizeAQI (Some (Fin 50)) = ''Good''" by simp
  from t le have s: "severity (categorizeAQI (Some (Fin 50))) \<le> severity (categorizeAQI (Some (Fin 51)))"
    by blast
  from le g m s show ?thesis by blast
qed

subsection \<open>The failover loop\<close>

lemma tryEndpoints_tried:
  "fst (tryEndpoints post urls) =
     take (Suc (length (takeWhile (\<lambda>u. attempt (post u) = None) urls))) urls"
  by (induction urls) (auto split: option.splits prod.splits)

lemma tryEndpoints_all_fail:
  "(\<forall>u\<in>set urls. attempt (post u) = None) \<Longrightarrow>
   tryEndpoints post urls = (urls, Inl ''All Overpass endpoints failed'')"
  by (induction urls) auto

lemma tryEndpoints_first_success:
  "(\<forall>x\<in>set pre. attempt (post x) = None) \<Longrightarrow> attempt (post u) = Some v \<Longrightarrow>
   tryEndpoints post (pre @ u # rest) = (pre @ [u], Inr v)"
  by (induction pre) auto

lemma tryEndpoints_cases:
  "(\<forall>u\<in>set urls. attempt (post u) = None)
   \<or> (\<exists>pre u rest v. urls = pre @ u # rest \<and> (\<forall>x\<in>set pre. attempt (post x) = None)
         \<and> attempt (post u) = Some v)"
proof (induction urls)
  case Nil
  then show ?case by simp
next
  case (Cons a urls)
  show ?case
  proof (cases "attempt (post a)")
    case (Some v)
    then have "a # urls = [] @ a # urls \<and> (\<forall>x\<in>set []. attempt (post x) = None)
        \<and> attempt (post a) = Some v"
      by simp
    then show ?thesis by blast
  next
    case None
    from Cons.IH show ?thesis
    proof
      assume "\<forall>u\<in>set urls. attempt (post u) = None"
      with None show ?thesis by simp
    next
      assume "\<exists>pre u rest v. urls = pre @ u # rest \<and> (\<forall>x\<in>set pre. attempt (post x) = None)
         \<and> attempt (post u) = Some v"
      then obtain pre u rest v where
        "urls = pre @ u # rest" "\<forall>x\<in>set pre. attempt (post x) = None" "attempt (post u) = Some v"
        by blast
      with None have "a # urls = (a # pre) @ u # rest
          \<and> (\<forall>x\<in>set (a # pre). attempt (post x) = None) \<and> attempt (post u) = Some v"
        by simp
      then show ?thesis by blast
    qed
  qed
qed

lemma tryEndpoints_Inr_iff:
  "snd (tryEndpoints post urls) = Inr v \<longleftrightarrow>
     (\<exists>pre u rest. urls = pre @ u # rest \<and> (\<forall>x\<in>set pre. attempt (post x) = None)
         \<and> attempt (post u) = Some v)"
proof
  assume r: "snd (tryEndpoints post urls) = Inr v"
  from tryEndpoints_cases [of urls post]
  show "\<exists>pre u rest. urls = pre @ u # rest \<and> (\<forall>x\<in>set pre. attempt (post x) = None)
         \<and> attempt (post u) = Some v"
  proof
    assume "\<forall>u\<in>set urls. attempt (post u) = None"
    then have "tryEndpoints post urls = (urls, Inl ''All Overpass endpoints failed'')"
      by (rule tryEndpoints_all_fail)
    with r show ?thesis by simp
  next
    assume "\<exists>pre u rest w. urls = pre @ u # rest \<and> (\<forall>x\<in>set pre. attempt (post x) = None)
         \<and> attempt (post u) = Some w"
    then obtain pre u rest w where
      *: "urls = pre @ u # rest" "\<forall>x\<in>set pre. attempt (post x) = None" "attempt (post u) = Some w"
      by blast
    then have "tryEndpoints post urls = (pre @ [u], Inr w)"
      by (simp add: tryEndpoints_first_success)
    with r have "w = v" by simp
    with * show ?thesis by blast
  qed
next
  assume "\<exists>pre u rest. urls = pre @ u # rest \<and> (\<forall>x\<in>set pre. attempt (post x) = None)
         \<and> attempt (post u) = Some v"
  then obtain pre u rest where
    "urls = pre @ u # rest" "\<forall>x\<in>set pre. attempt (post x) = None" "attempt (post u) = Some v"
    by blast
  then show "snd (tryEndpoints post urls) = Inr v"
    by (simp add: tryEndpoints_first_success)
qed

lemma tryEndpoints_Inl_iff:
  "snd (tryEndpoints post urls) = Inl e \<longleftrightarrow>
     (\<forall>u\<in>set urls. attempt (post u) = None) \<and> e = ''All Overpass endpoints failed''"
proof
  assume r: "snd (tryEndpoints post urls) = Inl e"
  from tryEndpoints_cases [of urls post]
  show "(\<forall>u\<in>set urls. attempt (post u) = None) \<and> e = ''All Overpass endpoints failed''"
  proof
    assume a: "\<forall>u\<in>set urls. attempt (post u) = None"
    then have "tryEndpoints post urls = (urls, Inl ''All Overpass endpoints failed'')"
      by (rule tryEndpoints_all_fail)
    with r a show ?thesis by simp
  next
    assume "\<exists>pre u rest w. urls = pre @ u # rest \<and> (\<forall>x\<in>set pre. attempt (post x) = None)
         \<and> attempt (post u) = Some w"
    then obtain pre u rest w where
      "urls = pre @ u # rest" "\<forall>x\<in>set pre. attempt (post x) = None" "attempt (post u) = Some w"
      by blast
    then have "tryEndpoints post urls = (pre @ [u], Inr w)"
      by (simp add: tryEndpoints_first_success)
    with r show ?thesis by simp
  qed
next
  assume "(\<forall>u\<in>set urls. attempt (post u) = None) \<and> e = ''All Overpass endpoints failed''"
  then show "snd (tryEndpoints post urls) = Inl e"
    by (simp add: tryEndpoints_all_fail)
qed

lemma attempt_cases:
  "attempt (NetworkError m) = None"
  "\<not> ok res \<Longrightarrow> attempt (Responded res) = None"
  "ok res \<Longrightarrow> attempt (Responded res) = (case body_json res of Inl _ \<Rightarrow> None | Inr v \<Rightarrow> Some v)"
  by (simp_all add: attempt_def)

text \<open>
  Claim C4. For every list of endpoints and every behaviour of the endpoints: the
  endpoints a POST is issued to are a prefix of the list, namely the leading endpoints
  that fail and the first one that does not, so each is tried in list order and at most
  once; a thrown error, a response that is not \<^verbatim>\<open>ok\<close> and a body that does not parse each
  count as a failed attempt; the result is the parsed payload \<open>v\<close> exactly when some
  endpoint answers \<open>v\<close> and all endpoints before it fail; the error
  \<^verbatim>\<open>All Overpass endpoints failed\<close> is raised exactly when every endpoint fails; and when
  only the last endpoint succeeds, every endpoint is tried and the result is the last
  one's payload. \<^verbatim>\<open>fetchOverpass\<close> is this loop over the three configured endpoints.
\<close>

theorem tryEndpoints_failover:
  "fst (tryEndpoints post urls) =
     take (Suc (length (takeWhile (\<lambda>u. attempt (post u) = None) urls))) urls
   \<and> attempt (NetworkError m) = (None :: 'b option)
   \<and> (\<not> ok res \<longrightarrow> attempt (Responded res) = None)
   \<and> (ok res \<longrightarrow>
        attempt (Responded res) = (case body_json res of Inl _ \<Rightarrow> None | Inr y \<Rightarrow> Some y))
   \<and> (snd (tryEndpoints post urls) = Inr v \<longleftrightarrow>
        (\<exists>pre u rest. urls = pre @ u # rest \<and> (\<forall>x\<in>set pre. attempt (post x) = None)
           \<and> attempt (post u) = Some v))
   \<and> (snd (tryEndpoints post urls) = Inl e \<longleftrightarrow>
        (\<forall>u\<in>set urls. attempt (post u) = None) \<and> e = ''All Overpass endpoints failed'')
   \<and> ((\<forall>x\<in>set front. attempt (post x) = None) \<and> attempt (post final) = Some w \<longrightarrow>
        tryEndpoints post (front @ [final]) = (front @ [final], Inr w))
   \<and> fetchOverpass net query = tryEndpoints (\<lambda>url. net url query) OVERPASS_ENDPOINTS"
proof -
  have a: "fst (tryEndpoints post urls) =
     take (Suc (length (takeWhile (\<lambda>u. attempt (post u) = None) urls))) urls"
    by (rule tryEndpoints_tried)
  have b: "attempt (NetworkError m) = (None :: 'b option)"
    by (rule attempt_cases)
  have c: "\<not> ok res \<longrightarrow> attempt (Responded res) = None"
    by (simp add: attempt_cases)
  have d: "ok res \<longrightarrow>
        attempt (Responded res) = (case body_json res of Inl _ \<Rightarrow> None | Inr y \<Rightarrow> Some y)"
    by (simp add: attempt_cases)
  have f: "(\<forall>x\<in>set front. attempt (post x) = None) \<and> attempt (post final) = Some w \<longrightarrow>
        tryEndpoints post (front @ [final]) = (front @ [final], Inr w)"
    using tryEndpoints_first_success [of front post final w "[]"] by blast
  have g: "fetchOverpass net query = tryEndpoints (\<lambda>url. net url query) OVERPASS_ENDPOINTS"
    by (simp add: fetchOverpass_def)
  from a b c d tryEndpoints_Inr_iff [of post urls v] tryEndpoints_Inl_iff [of post urls e] f g
  show ?thesis by blast
qed

theorem tryEndpoints_failover_witness:
  "attempt (last_mirror_only ''https://overpass-api.de/api/interpreter'') = None
   \<and> attempt (last_mirror_only ''https://overpass.kumi.systems/api/interpreter'') = None
   \<and> fetchOverpass (\<lambda>url q. last_mirror_only url) (InfraQuery (Fin 28) (Fin 77)) =
        (OVERPASS_ENDPOINTS, Inr \<lparr>elements = sample_points\<rparr>)
   \<and> snd (tryEndpoints no_mirror OVERPASS_ENDPOINTS) = Inl ''All Overpass endpoints failed''"
proof -
  let ?front = "[''https://overpass-api.de/api/interpreter'',
                 ''https://overpass.kumi.systems/api/interpreter'']"
  let ?final = "''https://overpass.nchc.org.tw/api/interpreter''"
  have split: "OVERPASS_ENDPOINTS = ?front @ [?final]"
    by (simp add: OVERPASS_ENDPOINTS_def)
  have f1: "attempt (last_mirror_only ''https://overpass-api.de/api/interpreter'') = None"
    by (simp add: last_mirror_only_def attempt_def)
  have f2: "attempt (last_mirror_only ''https://overpass.kumi.systems/api/interpreter'') = None"
    by (simp add: last_mirror_only_def attempt_def)
  have f3: "attempt (last_mirror_only ?final) = Some \<lparr>elements = sample_points\<rparr>"
    by (simp add: last_mirror_only_def attempt_def answer_def)
  have front: "\<forall>x\<in>set ?front. attempt (last_mirror_only x) = None"
    using f1 f2 by simp
  note t1 = tryEndpoints_failover
    [where post = last_mirror_only and front = ?front and final = ?final
       and w = "\<lparr>elements = sample_points\<rparr>" and net = "\<lambda>url q. last_mirror_only url"
       and query = "InfraQuery (Fin 28) (Fin 77)"]
  from t1 front f3
  have run: "tryEndpoints last_mirror_only (?front @ [?final]) =
               (?front @ [?final], Inr \<lparr>elements = sample_points\<rparr>)"
    by blast
  from t1 have "fetchOverpass (\<lambda>url q. last_mirror_only url) (InfraQuery (Fin 28) (Fin 77)) =
                  tryEndpoints last_mirror_only OVERPASS_ENDPOINTS"
    by blast
  also have "\<dots> = tryEndpoints last_mirror_only (?front @ [?final])"
    by (simp only: split)
  also note run
  also have "(?front @ [?final], Inr \<lparr>elements = sample_points\<rparr>) =
               (OVERPASS_ENDPOINTS, Inr \<lparr>elements = sample_points\<rparr>)"
    by (simp only: split)
  finally
  have r1: "fetchOverpass (\<lambda>url q. last_mirror_only url) (InfraQuery (Fin 28) (Fin 77)) =
              (OVERPASS_ENDPOINTS, Inr \<lparr>elements = sample_points\<rparr>)" .
  have down: "\<forall>u\<in>set OVERPASS_ENDPOINTS. attempt (no_mirror u) = None"
    by (simp add: no_mirror_def attempt_def)
  note t2 = tryEndpoints_failover
    [where post = no_mirror and urls = OVERPASS_ENDPOINTS
       and e = "''All Overpass endpoints failed''",
     THEN conjunct2, THEN conjunct2, THEN conjunct2, THEN conjunct2, THEN conjunct2,
     THEN conjunct1]
  from t2 down
  have r2: "snd (tryEndpoints no_mirror OVERPASS_ENDPOINTS) = Inl ''All Overpass endpoints failed''"
    by simp
  from f1 f2 r1 r2 show ?thesis by blast
qed

subsection \<open>The dataset lookup\<close>

lemma on_data_nomatch:
  "\<not> row_matches q row \<Longrightarrow> on_data lit q st row = st"
  by (simp add: on_data_def row_matches_def Let_def)

lemma on_data_match:
  "row_matches q row \<Longrightarrow> \<not> resolved st \<Longrightarrow>
   on_data lit q st row =
     st\<lparr>resolved := True, destroyed := True,
        settled := resolve (stats_of_row lit q row) (settled st)\<rparr>"
  by (auto simp add: on_data_def row_matches_def stats_of_row_def Let_def)

lemma deliver_destroyed:
  "destroyed st \<Longrightarrow> deliver lit q st evs = (st, evs)"
  by (cases evs) simp_all

lemma deliver_skip:
  "\<forall>r\<in>set rows. \<not> row_matches q r \<Longrightarrow> \<not> destroyed st \<Longrightarrow>
   deliver lit q st (map StreamData rows @ rest) = deliver lit q st rest"
  by (induction rows) (simp_all add: dispatch_def on_data_nomatch)

lemma deliver_hit:
  "row_matches q row \<Longrightarrow> \<not> resolved st \<Longrightarrow> \<not> destroyed st \<Longrightarrow>
   deliver lit q st (StreamData row # later) =
     (st\<lparr>resolved := True, destroyed := True,
         settled := resolve (stats_of_row lit q row) (settled st)\<rparr>, later)"
  by (simp add: dispatch_def on_data_match deliver_destroyed)

lemma deliver_first_match:
  assumes "\<forall>r\<in>set pre. \<not> row_matches q r" and "row_matches q row"
  shows "deliver lit q scan_start (map StreamData pre @ StreamData row # later) =
           (\<lparr>resolved = True, destroyed = True, settled = Resolved (stats_of_row lit q row)\<rparr>,
            later)"
proof -
  have fresh: "\<not> resolved scan_start" "\<not> destroyed scan_start"
    by (simp_all add: scan_start_def)
  have "deliver lit q scan_start (map StreamData pre @ StreamData row # later) =
          deliver lit q scan_start (StreamData row # later)"
    using assms(1) fresh(2) by (rule deliver_skip)
  also have "\<dots> = (scan_start\<lparr>resolved := True, destroyed := True,
         settled := resolve (stats_of_row lit q row) (settled scan_start)\<rparr>, later)"
    using assms(2) fresh by (rule deliver_hit)
  also have "\<dots> = (\<lparr>resolved = True, destroyed = True,
         settled = Resolved (stats_of_row lit q row)\<rparr>, later)"
    by (simp add: scan_start_def resolve_def)
  finally show ?thesis .
qed

lemma deliver_no_match:
  assumes "\<forall>r\<in>set rows. \<not> row_matches q r"
  shows "deliver lit q scan_start (map StreamData rows @ [StreamEnd]) =
           (\<lparr>resolved = False, destroyed = False,
             settled = Rejected ''No matching state, district, or city found''\<rparr>, [])"
proof -
  have "deliver lit q scan_start (map StreamData rows @ [StreamEnd]) =
          deliver lit q scan_start [StreamEnd]"
    using assms by (rule deliver_skip) (simp add: scan_start_def)
  also have "\<dots> = (\<lparr>resolved = False, destroyed = False,
             settled = Rejected ''No matching state, district, or city found''\<rparr>, [])"
    by (simp add: scan_start_def dispatch_def on_end_def reject_def)
  finally show ?thesis .
qed

lemma getLocationStats_first_match:
  assumes "\<forall>r\<in>set pre. \<not> row_matches (toLowerCase (trim searchValue)) r"
    and "row_matches (toLowerCase (trim searchValue)) row"
  shows "getLocationStats lit (map StreamData pre @ StreamData row # later) searchValue =
           Resolved (stats_of_row lit (toLowerCase (trim searchValue)) row)"
  using deliver_first_match [OF assms] by (simp add: getLocationStats_def)

lemma getLocationStats_no_match:
  assumes "\<forall>r\<in>set rows. \<not> row_matches (toLowerCase (trim searchValue)) r"
  shows "getLocationStats lit (map StreamData rows @ [StreamEnd]) searchValue =
           Rejected ''No matching state, district, or city found''"
  using deliver_no_match [OF assms] by (simp add: getLocationStats_def)

lemma getLocationStats_find:
  "getLocationStats lit (map StreamData rows @ [StreamEnd]) searchValue =
     (case find (row_matches (toLowerCase (trim searchValue))) rows of
        None \<Rightarrow> Rejected ''No matching state, district, or city found''
      | Some row \<Rightarrow> Resolved (stats_of_row lit (toLowerCase (trim searchValue)) row))"
proof (cases "find (row_matches (toLowerCase (trim searchValue))) rows")
  case None
  then have "\<forall>r\<in>set rows. \<not> row_matches (toLowerCase (trim searchValue)) r"
    by (simp add: find_None_iff)
  then show ?thesis
    using None by (simp add: getLocationStats_no_match)
next
  case (Some row)
  then obtain i where i: "i < length rows" "row_matches (toLowerCase (trim searchValue)) (rows ! i)"
    "row = rows ! i" "\<forall>j<i. \<not> row_matches (toLowerCase (trim searchValue)) (rows ! j)"
    by (auto simp: find_Some_iff)
  have pre: "\<forall>r\<in>set (take i rows). \<not> row_matches (toLowerCase (trim searchValue)) r"
    using i(1,4) by (auto simp: in_set_conv_nth)
  have hit: "row_matches (toLowerCase (trim searchValue)) row"
    using i(2,3) by simp
  have split: "rows = take i rows @ row # drop (Suc i) rows"
    using i(1,3) by (simp add: id_take_nth_drop)
  have "map StreamData rows @ [StreamEnd] =
          map StreamData (take i rows) @ StreamData row
            # (map StreamData (drop (Suc i) rows) @ [StreamEnd])"
    by (subst split) simp
  then have "getLocationStats lit (map StreamData rows @ [StreamEnd]) searchValue =
               Resolved (stats_of_row lit (toLowerCase (trim searchValue)) row)"
    using getLocationStats_first_match [OF pre hit] by simp
  then show ?thesis
    using Some by simp
qed

lemma stats_of_row_priority:
  "trim_lower (City row) = Some q \<Longrightarrow>
     stats_of_row lit q row =
       \<lparr>population = or_zero (Number lit (Population row)),
        area = or_zero (Number lit (Area row)), matchedOn = ''city'', name = City row\<rparr>"
  "trim_lower (City row) \<noteq> Some q \<Longrightarrow> trim_lower (District row) = Some q \<Longrightarrow>
     stats_of_row lit q row =
       \<lparr>population = or_zero (Number lit (Population row)),
        area = or_zero (Number lit (Area row)), matchedOn = ''district'', name = District row\<rparr>"
  "trim_lower (City row) \<noteq> Some q \<Longrightarrow> trim_lower (District row) \<noteq> Some q \<Longrightarrow>
     stats_of_row lit q row =
       \<lparr>population = or_zero (Number lit (Population row)),
        area = or_zero (Number lit (Area row)), matchedOn = ''state'', name = State row\<rparr>"
  by (simp_all add: stats_of_row_def)

text \<open>
  Claim C2. For a file of rows read to its end and a query, the lookup is a function of
  the two, so every call gives the same answer, and it is first-match-wins: with \<open>q\<close> the
  trimmed, lowercased query, the answer is that of the earliest row of the file one of
  whose City, District and State fields, trimmed and lowercased, equals \<open>q\<close>, and the
  no-match error when there is no such row. Within the row the City field is tried before
  the District field and that before the State field; \<open>name\<close> is the matched field as the
  file has it, and population and area are those of the row.
\<close>

theorem getLocationStats_first_match_wins:
  "getLocationStats lit (map StreamData rows @ [StreamEnd]) searchValue =
     (case find (row_matches (toLowerCase (trim searchValue))) rows of
        None \<Rightarrow> Rejected ''No matching state, district, or city found''
      | Some row \<Rightarrow> Resolved (stats_of_row lit (toLowerCase (trim searchValue)) row))
   \<and> ((\<forall>r\<in>set pre. \<not> row_matches (toLowerCase (trim searchValue)) r)
        \<and> trim_lower (City row) = Some (toLowerCase (trim searchValue)) \<longrightarrow>
        getLocationStats lit (map StreamData (pre @ row # post) @ [StreamEnd]) searchValue =
          Resolved \<lparr>population = or_zero (Number lit (Population row)),
                    area = or_zero (Number lit (Area row)),
                    matchedOn = ''city'', name = City row\<rparr>)
   \<and> ((\<forall>r\<in>set pre. \<not> row_matches (toLowerCase (trim searchValue)) r)
        \<and> trim_lower (City row) \<noteq> Some (toLowerCase (trim searchValue))
        \<and> trim_lower (District row) = Some (toLowerCase (trim searchValue)) \<longrightarrow>
        getLocationStats lit (map StreamData (pre @ row # post) @ [StreamEnd]) searchValue =
          Resolved \<lparr>population = or_zero (Number lit (Population row)),
                    area = or_zero (Number lit (Area row)),
                    matchedOn = ''district'', name = District row\<rparr>)
   \<and> ((\<forall>r\<in>set pre. \<not> row_matches (toLowerCase (trim searchValue)) r)
        \<and> trim_lower (City row) \<noteq> Some (toLowerCase (trim searchValue))
        \<and> trim_lower (District row) \<noteq> Some (toLowerCase (trim searchValue))
        \<and> trim_lower (State row) = Some (toLowerCase (trim searchValue)) \<longrightarrow>
        getLocationStats lit (map StreamData (pre @ row # post) @ [StreamEnd]) searchValue =
          Resolved \<lparr>population = or_zero (Number lit (Population row)),
                    area = or_zero (Number lit (Area row)),
                    matchedOn = ''state'', name = State row\<rparr>)"
proof -
  let ?q = "toLowerCase (trim searchValue)"
  have shape: "map StreamData (pre @ row # post) @ [StreamEnd] =
      map StreamData pre @ StreamData row # (map StreamData post @ [StreamEnd])"
    by simp
  have hit: "getLocationStats lit (map StreamData (pre @ row # post) @ [StreamEnd]) searchValue =
      Resolved (stats_of_row lit ?q row)"
    if "\<forall>r\<in>set pre. \<not> row_matches ?q r" and "row_matches ?q row"
    unfolding shape using that by (rule getLocationStats_first_match)
  have c: "(\<forall>r\<in>set pre. \<not> row_matches ?q r) \<and> trim_lower (City row) = Some ?q \<longrightarrow>
        getLocationStats lit (map StreamData (pre @ row # post) @ [StreamEnd]) searchValue =
          Resolved \<lparr>population = or_zero (Number lit (Population row)),
                    area = or_zero (Number lit (Area row)),
                    matchedOn = ''city'', name = City row\<rparr>"
    using hit by (simp add: row_matches_def stats_of_row_priority)
  have d: "(\<forall>r\<in>set pre. \<not> row_matches ?q r) \<and> trim_lower (City row) \<noteq> Some ?q
        \<and> trim_lower (District row) = Some ?q \<longrightarrow>
        getLocationStats lit (map StreamData (pre @ row # post) @ [StreamEnd]) searchValue =
          Resolved \<lparr>population = or_zero (Number lit (Population row)),
                    area = or_zero (Number lit (Area row)),
                    matchedOn = ''district'', name = District row\<rparr>"
    using hit by (simp add: row_matches_def stats_of_row_priority)
  have s: "(\<forall>r\<in>set pre. \<not> row_matches ?q r) \<and> trim_lower (City row) \<noteq> Some ?q
        \<and> trim_lower (District row) \<noteq> Some ?q \<and> trim_lower (State row) = Some ?q \<longrightarrow>
        getLocationStats lit (map StreamData (pre @ row # post) @ [StreamEnd]) searchValue =
          Resolved \<lparr>population = or_zero (Number lit (Population row)),
                    area = or_zero (Number lit (Area row)),
                    matchedOn = ''state'', name = State row\<rparr>"
    using hit by (simp add: row_matches_def stats_of_row_priority)
  from getLocationStats_find [of lit rows searchValue] c d s show ?thesis
    by (intro conjI)
qed

theorem getLocationStats_first_match_wins_witness:
  "\<not> row_matches ''new delhi'' row_mumbai
   \<and> trim_lower (City row_delhi) = Some ''delhi''
   \<and> trim_lower (District row_delhi) = Some ''new delhi''
   \<and> trim_lower (City row_new_delhi) = Some ''new delhi''
   \<and> getLocationStats sample_lit (map StreamData sample_rows @ [StreamEnd]) '' New Delhi'' =
        Resolved \<lparr>population = Fin 16787941, area = Fin 1484, matchedOn = ''district'',
                  name = Some ''New Delhi''\<rparr>
   \<and> getLocationStats sample_lit (map StreamData sample_rows @ [StreamEnd]) ''Pune'' =
        Rejected ''No matching state, district, or city found''"
proof -
  have q: "toLowerCase (trim '' New Delhi'') = ''new delhi''"
    by code_simp
  have m: "\<not> row_matches ''new delhi'' row_mumbai"
    by code_simp
  have c: "trim_lower (City row_delhi) = Some ''delhi''"
    by code_simp
  have d: "trim_lower (District row_delhi) = Some ''new delhi''"
    by code_simp
  have n: "trim_lower (City row_new_delhi) = Some ''new delhi''"
    by code_simp
  have nums: "or_zero (Number sample_lit (Population row_delhi)) = Fin 16787941"
    "or_zero (Number sample_lit (Area row_delhi)) = Fin 1484"
    "District row_delhi = Some ''New Delhi''"
    by code_simp+
  note t = getLocationStats_first_match_wins
    [where lit = sample_lit and searchValue = "'' New Delhi''" and pre = "[row_mumbai]"
       and row = row_delhi and post = "[row_new_delhi, row_agra]",
     THEN conjunct2, THEN conjunct2, THEN conjunct1]
  from t m c d
  have r1: "getLocationStats sample_lit (map StreamData sample_rows @ [StreamEnd]) '' New Delhi'' =
        Resolved \<lparr>population = Fin 16787941, area = Fin 1484, matchedOn = ''district'',
                  name = Some ''New Delhi''\<rparr>"
    by (simp add: q sample_rows_def nums)
  have none: "find (row_matches (toLowerCase (trim ''Pune''))) sample_rows = None"
    by code_simp
  note u = getLocationStats_first_match_wins
    [where lit = sample_lit and searchValue = "''Pune''" and rows = sample_rows,
     THEN conjunct1]
  from u none
  have r2: "getLocationStats sample_lit (map StreamData sample_rows @ [StreamEnd]) ''Pune'' =
        Rejected ''No matching state, district, or city found''"
    by simp
  from m c d n r1 r2 show ?thesis by (intro conjI)
qed

lemma dispatch_after_resolved:
  assumes "resolved st" and "settled st = Resolved s"
  shows "resolved (dispatch lit q st ev) \<and> settled (dispatch lit q st ev) = Resolved s"
  using assms
  by (cases ev) (simp_all add: dispatch_def on_data_def on_end_def on_error_def reject_def)

lemma foldl_dispatch_after_resolved:
  "resolved st \<Longrightarrow> settled st = Resolved s \<Longrightarrow>
   settled (foldl (dispatch lit q) st evs) = Resolved s"
proof (induction evs arbitrary: st)
  case Nil
  then show ?case by simp
next
  case (Cons ev evs)
  from dispatch_after_resolved [OF Cons.prems, of lit q ev]
  have "settled (foldl (dispatch lit q) (dispatch lit q st ev) evs) = Resolved s"
    by (intro Cons.IH) simp_all
  then show ?case by simp
qed

text \<open>
  Claim C3. When a row matches and no row before it does, the stream delivers the rows up
  to the matching one and is destroyed there: whatever follows in the stream, rows of any
  shape or a read error, is left undelivered, and the promise is resolved with the
  matching row's answer. Were later events handed to the listeners all the same, they
  would leave the resolved promise as it is. When no row of a file matches, every event up
  to the end of the stream is delivered and the promise is rejected with the no-match
  error.
\<close>

theorem lookup_stops_at_first_match:
  "((\<forall>r\<in>set pre. \<not> row_matches q r) \<and> row_matches q row \<longrightarrow>
      deliver lit q scan_start (map StreamData pre @ StreamData row # later) =
        (\<lparr>resolved = True, destroyed = True, settled = Resolved (stats_of_row lit q row)\<rparr>,
         later))
   \<and> ((\<forall>r\<in>set pre. \<not> row_matches (toLowerCase (trim searchValue)) r)
        \<and> row_matches (toLowerCase (trim searchValue)) row \<longrightarrow>
      getLocationStats lit (map StreamData pre @ StreamData row # later) searchValue =
        Resolved (stats_of_row lit (toLowerCase (trim searchValue)) row))
   \<and> ((\<forall>r\<in>set rows. \<not> row_matches q r) \<longrightarrow>
      deliver lit q scan_start (map StreamData rows @ [StreamEnd]) =
        (\<lparr>resolved = False, destroyed = False,
          settled = Rejected ''No matching state, district, or city found''\<rparr>, []))
   \<and> ((\<forall>r\<in>set rows. \<not> row_matches (toLowerCase (trim searchValue)) r) \<longrightarrow>
      getLocationStats lit (map StreamData rows @ [StreamEnd]) searchValue =
        Rejected ''No matching state, district, or city found'')
   \<and> (resolved st \<and> settled st = Resolved s \<longrightarrow>
        settled (foldl (dispatch lit q) st later) = Resolved s)"
  using deliver_first_match [of pre q row lit later]
    getLocationStats_first_match [of pre searchValue row lit later]
    deliver_no_match [of rows q lit]
    getLocationStats_no_match [of rows searchValue lit]
    foldl_dispatch_after_resolved [of st s lit q later]
  by blast

theorem lookup_stops_at_first_match_witness:
  "\<not> row_matches ''delhi'' row_mumbai
   \<and> row_matches ''delhi'' row_delhi
   \<and> deliver sample_lit ''delhi'' scan_start
        (map StreamData [row_mumbai] @ StreamData row_delhi
           # [StreamData row_agra, StreamError ''EIO: i/o error, read'', StreamData row_new_delhi]) =
        (\<lparr>resolved = True, destroyed = True,
          settled = Resolved \<lparr>population = Fin 16787941, area = Fin 1484, matchedOn = ''city'',
                              name = Some '' Delhi ''\<rparr>\<rparr>,
         [StreamData row_agra, StreamError ''EIO: i/o error, read'', StreamData row_new_delhi])
   \<and> deliver sample_lit ''chennai'' scan_start (map StreamData sample_rows @ [StreamEnd]) =
        (\<lparr>resolved = False, destroyed = False,
          settled = Rejected ''No matching state, district, or city found''\<rparr>, [])"
proof -
  have m: "\<not> row_matches ''delhi'' row_mumbai"
    by code_simp
  have h: "row_matches ''delhi'' row_delhi"
    by code_simp
  have st: "stats_of_row sample_lit ''delhi'' row_delhi =
      \<lparr>population = Fin 16787941, area = Fin 1484, matchedOn = ''city'', name = Some '' Delhi ''\<rparr>"
    by code_simp
  note t = lookup_stops_at_first_match
    [where lit = sample_lit and q = "''delhi''" and pre = "[row_mumbai]" and row = row_delhi
       and later = "[StreamData row_agra, StreamError ''EIO: i/o error, read'',
                     StreamData row_new_delhi]",
     THEN conjunct1]
  from t m h
  have r1: "deliver sample_lit ''delhi'' scan_start
        (map StreamData [row_mumbai] @ StreamData row_delhi
           # [StreamData row_agra, StreamError ''EIO: i/o error, read'', StreamData row_new_delhi]) =
        (\<lparr>resolved = True, destroyed = True,
          settled = Resolved \<lparr>population = Fin 16787941, area = Fin 1484, matchedOn = ''city'',
                              name = Some '' Delhi ''\<rparr>\<rparr>,
         [StreamData row_agra, StreamError ''EIO: i/o error, read'', StreamData row_new_delhi])"
    by (simp add: st)
  have none: "\<forall>r\<in>set sample_rows. \<not> row_matches ''chennai'' r"
    by code_simp
  note u = lookup_stops_at_first_match
    [where lit = sample_lit and q = "''chennai''" and rows = sample_rows,
     THEN conjunct2, THEN conjunct2, THEN conjunct1]
  from u none
  have r2: "deliver sample_lit ''chennai'' scan_start (map StreamData sample_rows @ [StreamEnd]) =
        (\<lparr>resolved = False, destroyed = False,
          settled = Rejected ''No matching state, district, or city found''\<rparr>, [])"
    by blast
  from m h r1 r2 show ?thesis by (intro conjI)
qed

subsection \<open>Population and area\<close>










subsection \<open>The handler\<close>

lemma handler_reportE:
  assumes "handler lit up q = (calls, Reply code (ReportBody r))"
  obtains cn c rest w st tried1 infraData tried2 waterData wiki where
    "q = Some cn" "cn \<noteq> []"
    "safeFetch (nominatim up cn) = Inr (c # rest)"
    "safeFetch (open_meteo up (Number lit (Some (lat_text c))) (Number lit (Some (lon_text c)))) = Inr w"
    "getLocationStats lit (final_cities up)
       (trim (takeWhile (\<lambda>ch. ch \<noteq> CHR '','') (display_name c))) = Resolved st"
    "fetchOverpass (overpass up)
       (InfraQuery (Number lit (Some (lat_text c))) (Number lit (Some (lon_text c)))) =
         (tried1, Inr infraData)"
    "fetchOverpass (overpass up)
       (WaterQuery (Number lit (Some (lat_text c))) (Number lit (Some (lon_text c)))) =
         (tried2, Inr waterData)"
    "safeFetch (wikipedia_api up cn) = Inr wiki"
    "code = 200"
    "r = \<lparr>city = \<lparr>city_name = cn, displayName = display_name c,
                    lat = Number lit (Some (lat_text c)), lon = Number lit (Some (lon_text c))\<rparr>,
           report_population = population st,
           report_area = area st,
           weather = w,
           airQuality =
             (if aqi_assigned up
              then Section (getAQISection
                      (waqi up (Number lit (Some (lat_text c))) (Number lit (Some (lon_text c))))
                      (air_quality_api up (Number lit (Some (lat_text c)))
                         (Number lit (Some (lon_text c)))))
              else EmptyString),
           infrastructure = infrastructure_of (infra_of (elements infraData)),
           waterBodies = waterBodies_of (water_of (elements waterData)),
           wikipedia = wiki\<rparr>"
  using assms
  by (auto simp: handler_def Let_def
           split: option.splits if_splits sum.splits list.splits promise.splits prod.splits)

lemma sample_reply_unassigned:
  "handler sample_lit (sample_world False) (Some ''Delhi'') =
     (sample_calls, Reply 200 (ReportBody (sample_report EmptyString)))"
  by code_simp

lemma sample_reply_assigned:
  "handler sample_lit (sample_world True) (Some ''Delhi'') =
     (sample_calls, Reply 200 (ReportBody (sample_report (Section sample_section))))"
  by code_simp















subsection \<open>The tallies\<close>

lemma set_set_add: "set (set_add s x) = insert x (set s)"
  by (auto simp: set_add_def)

lemma distinct_set_add: "distinct s \<Longrightarrow> distinct (set_add s x)"
  by (simp add: set_add_def)

lemma set_add_member: "x \<in> set s \<Longrightarrow> set_add s x = s"
  by (simp add: set_add_def)

lemma pick_names_where:
  "{n. \<exists>el\<in>set els. pick P el = Some n} = names_where P els"
  by (auto simp: pick_def names_where_def has_name_def split: option.splits if_splits)

lemma pick_has_name:
  "has_name el n \<Longrightarrow> pick P el = (if P el then Some n else None)"
  by (simp add: pick_def has_name_def)

lemma pick_unnamed:
  "tags_of el ''name'' = None \<or> tags_of el ''name'' = Some [] \<Longrightarrow> pick P el = None"
  by (auto simp: pick_def)

text \<open>
  A fold of a visit that adds to the set \<open>f\<close> the name \<open>pick P\<close> gives: the set holds the
  names picked, once each.
\<close>

lemma foldl_pick:
  assumes step: "\<And>acc el. f (visit acc el) =
      (case pick P el of None \<Rightarrow> f acc | Some n \<Rightarrow> set_add (f acc) n)"
  shows "set (f (foldl visit acc els)) = set (f acc) \<union> {n. \<exists>el\<in>set els. pick P el = Some n}"
    and "distinct (f acc) \<Longrightarrow> distinct (f (foldl visit acc els))"
proof (induction els arbitrary: acc)
  case Nil
  { case 1 show ?case by simp }
  { case 2 then show ?case by simp }
next
  case (Cons el els)
  { case 1
    show ?case
      unfolding foldl_Cons Cons.IH(1) step
      by (cases "pick P el") (auto simp: set_set_add) }
  { case 2
    then have "distinct (f (visit acc el))"
      unfolding step by (cases "pick P el") (simp_all add: distinct_set_add)
    then show ?case
      unfolding foldl_Cons by (rule Cons.IH(2)) }
qed

lemma infra_visit_named:
  assumes "has_name el n"
  shows "infra_visit acc el =
     \<lparr>hospitals = (if is_hospital el then set_add (hospitals acc) n else hospitals acc),
      schools = (if is_school el then set_add (schools acc) n else schools acc),
      colleges = (if is_college el then set_add (colleges acc) n else colleges acc),
      railwayStations = (if is_railway_station el
                         then set_add (railwayStations acc) n else railwayStations acc),
      metroStations = (if is_metro_station el
                       then set_add (metroStations acc) n else metroStations acc)\<rparr>"
proof -
  define nm where "nm = tags_of el ''name''"
  have nm: "nm = Some n" "n \<noteq> []"
    using assms by (simp_all add: has_name_def nm_def)
  show ?thesis
    unfolding infra_visit_def Let_def is_railway_station_def [symmetric]
      is_metro_station_def [symmetric] is_hospital_def [symmetric] is_school_def [symmetric]
      is_college_def [symmetric] nm_def [symmetric]
    by (cases acc) (simp add: nm)
qed

lemma infra_visit_unnamed:
  "tags_of el ''name'' = None \<or> tags_of el ''name'' = Some [] \<Longrightarrow> infra_visit acc el = acc"
  by (auto simp: infra_visit_def Let_def)

lemma named_or_unnamed:
  "(\<exists>n. has_name el n) \<or> tags_of el ''name'' = None \<or> tags_of el ''name'' = Some []"
  by (cases "tags_of el ''name''") (auto simp: has_name_def)

lemma hospitals_visit:
  "hospitals (infra_visit acc el) =
     (case pick is_hospital el of
        None \<Rightarrow> hospitals acc | Some n \<Rightarrow> set_add (hospitals acc) n)"
  using named_or_unnamed [of el]
  by (auto simp: infra_visit_named infra_visit_unnamed pick_has_name pick_unnamed)

lemma schools_visit:
  "schools (infra_visit acc el) =
     (case pick is_school el of
        None \<Rightarrow> schools acc | Some n \<Rightarrow> set_add (schools acc) n)"
  using named_or_unnamed [of el]
  by (auto simp: infra_visit_named infra_visit_unnamed pick_has_name pick_unnamed)

lemma colleges_visit:
  "colleges (infra_visit acc el) =
     (case pick is_college el of
        None \<Rightarrow> colleges acc | Some n \<Rightarrow> set_add (colleges acc) n)"
  using named_or_unnamed [of el]
  by (auto simp: infra_visit_named infra_visit_unnamed pick_has_name pick_unnamed)

lemma railwayStations_visit:
  "railwayStations (infra_visit acc el) =
     (case pick is_railway_station el of
        None \<Rightarrow> railwayStations acc | Some n \<Rightarrow> set_add (railwayStations acc) n)"
  using named_or_unnamed [of el]
  by (auto simp: infra_visit_named infra_visit_unnamed pick_has_name pick_unnamed)

lemma metroStations_visit:
  "metroStations (infra_visit acc el) =
     (case pick is_metro_station el of
        None \<Rightarrow> metroStations acc | Some n \<Rightarrow> set_add (metroStations acc) n)"
  using named_or_unnamed [of el]
  by (auto simp: infra_visit_named infra_visit_unnamed pick_has_name pick_unnamed)

lemma water_visit_named:
  assumes "has_name el n"
  shows "water_visit acc el =
     (if tags_of el ''waterway'' = Some ''river''
      then acc\<lparr>rivers := set_add (rivers acc) n\<rparr>
      else acc\<lparr>others := set_add (others acc) n\<rparr>)"
  using assms by (simp add: water_visit_def has_name_def Let_def)

lemma water_visit_unnamed:
  "tags_of el ''name'' = None \<or> tags_of el ''name'' = Some [] \<Longrightarrow> water_visit acc el = acc"
  by (auto simp: water_visit_def Let_def)

lemma rivers_visit:
  "rivers (water_visit acc el) =
     (case pick (\<lambda>el. tags_of el ''waterway'' = Some ''river'') el of
        None \<Rightarrow> rivers acc | Some n \<Rightarrow> set_add (rivers acc) n)"
  using named_or_unnamed [of el]
  by (auto simp: water_visit_named water_visit_unnamed pick_has_name pick_unnamed)

lemma others_visit:
  "others (water_visit acc el) =
     (case pick (\<lambda>el. tags_of el ''waterway'' \<noteq> Some ''river'') el of
        None \<Rightarrow> others acc | Some n \<Rightarrow> set_add (others acc) n)"
  using named_or_unnamed [of el]
  by (auto simp: water_visit_named water_visit_unnamed pick_has_name pick_unnamed)

lemma infra_of_sets:
  "set (hospitals (infra_of els)) = names_where is_hospital els"
  "set (schools (infra_of els)) = names_where is_school els"
  "set (colleges (infra_of els)) = names_where is_college els"
  "set (railwayStations (infra_of els)) = names_where is_railway_station els"
  "set (metroStations (infra_of els)) = names_where is_metro_station els"
  unfolding infra_of_def
  using foldl_pick(1) [of hospitals infra_visit, OF hospitals_visit, of infra_new els]
    foldl_pick(1) [of schools infra_visit, OF schools_visit, of infra_new els]
    foldl_pick(1) [of colleges infra_visit, OF colleges_visit, of infra_new els]
    foldl_pick(1) [of railwayStations infra_visit, OF railwayStations_visit, of infra_new els]
    foldl_pick(1) [of metroStations infra_visit, OF metroStations_visit, of infra_new els]
  by (simp_all add: infra_new_def pick_names_where)

lemma infra_of_distinct:
  "distinct (hospitals (infra_of els))"
  "distinct (schools (infra_of els))"
  "distinct (colleges (infra_of els))"
  "distinct (railwayStations (infra_of els))"
  "distinct (metroStations (infra_of els))"
  unfolding infra_of_def
  using foldl_pick(2) [of hospitals infra_visit, OF hospitals_visit, of infra_new els]
    foldl_pick(2) [of schools infra_visit, OF schools_visit, of infra_new els]
    foldl_pick(2) [of colleges infra_visit, OF colleges_visit, of infra_new els]
    foldl_pick(2) [of railwayStations infra_visit, OF railwayStations_visit, of infra_new els]
    foldl_pick(2) [of metroStations infra_visit, OF metroStations_visit, of infra_new els]
  by (simp_all add: infra_new_def)

lemma water_of_distinct:
  "distinct (rivers (water_of els))"
  "distinct (others (water_of els))"
  unfolding water_of_def
  using foldl_pick(2) [of rivers water_visit, OF rivers_visit, of water_new els]
    foldl_pick(2) [of others water_visit, OF others_visit, of water_new els]
  by (simp_all add: water_new_def)

lemma set_size_distinct: "distinct s \<Longrightarrow> set_size s = length (spread s)"
  by (simp add: set_size_def spread_def distinct_card)

lemma infrastructure_of_counts:
  "hospitals_count (infrastructure_of (infra_of els)) =
     length (hospitals_names (names (infrastructure_of (infra_of els))))"
  "schools_count (infrastructure_of (infra_of els)) =
     length (schools_names (names (infrastructure_of (infra_of els))))"
  "colleges_count (infrastructure_of (infra_of els)) =
     length (colleges_names (names (infrastructure_of (infra_of els))))"
  "railwayStations_count (infrastructure_of (infra_of els)) =
     length (railwayStations_names (names (infrastructure_of (infra_of els))))"
  "metroStations_count (infrastructure_of (infra_of els)) =
     length (metroStations_names (names (infrastructure_of (infra_of els))))"
  by (simp_all add: infrastructure_of_def set_size_distinct infra_of_distinct)

lemma waterBodies_of_counts:
  "group_count (rivers_group (waterBodies_of (water_of els))) =
     length (group_names (rivers_group (waterBodies_of (water_of els))))"
  "group_count (otherWaterBodies (waterBodies_of (water_of els))) =
     length (group_names (otherWaterBodies (waterBodies_of (water_of els))))"
  by (simp_all add: waterBodies_of_def set_size_distinct water_of_distinct)


text \<open>A second point with the name and the rule of one already visited changes nothing.\<close>

lemma visit_twice:
  assumes step: "\<And>acc el. f (visit acc el) =
      (case pick P el of None \<Rightarrow> f acc | Some n \<Rightarrow> set_add (f acc) n)"
    and "has_name el n" "has_name el' n" "P el" "P el'"
  shows "f (visit (visit acc el) el') = f (visit acc el)"
  using assms(2-) by (simp add: step pick_has_name set_add_def)

text \<open>
  Claim C6. For every list of returned points and each of the five categories, the name
  list of the response is a list without repetition whose members are exactly the names
  of the named points that satisfy the category's rule, taken as the tags have them (two
  names that differ in case are two members), and the count is the number of these
  names. A point whose name tag is missing or empty changes no set. A second point with
  the name and the category of one already visited changes nothing in that category.
\<close>

theorem infra_names_are_the_distinct_names:
  "set (hospitals_names (names (infrastructure_of (infra_of els)))) = names_where is_hospital els
   \<and> set (schools_names (names (infrastructure_of (infra_of els)))) = names_where is_school els
   \<and> set (colleges_names (names (infrastructure_of (infra_of els)))) = names_where is_college els
   \<and> set (railwayStations_names (names (infrastructure_of (infra_of els)))) =
        names_where is_railway_station els
   \<and> set (metroStations_names (names (infrastructure_of (infra_of els)))) =
        names_where is_metro_station els
   \<and> distinct (hospitals_names (names (infrastructure_of (infra_of els))))
   \<and> distinct (schools_names (names (infrastructure_of (infra_of els))))
   \<and> distinct (colleges_names (names (infrastructure_of (infra_of els))))
   \<and> distinct (railwayStations_names (names (infrastructure_of (infra_of els))))
   \<and> distinct (metroStations_names (names (infrastructure_of (infra_of els))))
   \<and> hospitals_count (infrastructure_of (infra_of els)) = card (names_where is_hospital els)
   \<and> schools_count (infrastructure_of (infra_of els)) = card (names_where is_school els)
   \<and> colleges_count (infrastructure_of (infra_of els)) = card (names_where is_college els)
   \<and> railwayStations_count (infrastructure_of (infra_of els)) =
        card (names_where is_railway_station els)
   \<and> metroStations_count (infrastructure_of (infra_of els)) =
        card (names_where is_metro_station els)
   \<and> (tags_of el ''name'' = None \<or> tags_of el ''name'' = Some [] \<longrightarrow> infra_visit acc el = acc)
   \<and> (has_name el n \<and> has_name el' n \<and> is_hospital el \<and> is_hospital el' \<longrightarrow>
        hospitals (infra_visit (infra_visit acc el) el') = hospitals (infra_visit acc el))
   \<and> (has_name el n \<and> has_name el' n \<and> is_school el \<and> is_school el' \<longrightarrow>
        schools (infra_visit (infra_visit acc el) el') = schools (infra_visit acc el))
   \<and> (has_name el n \<and> has_name el' n \<and> is_college el \<and> is_college el' \<longrightarrow>
        colleges (infra_visit (infra_visit acc el) el') = colleges (infra_visit acc el))
   \<and> (has_name el n \<and> has_name el' n \<and> is_railway_station el \<and> is_railway_station el' \<longrightarrow>
        railwayStations (infra_visit (infra_visit acc el) el') =
          railwayStations (infra_visit acc el))
   \<and> (has_name el n \<and> has_name el' n \<and> is_metro_station el \<and> is_metro_station el' \<longrightarrow>
        metroStations (infra_visit (infra_visit acc el) el') = metroStations (infra_visit acc el))"
proof -
  have sets:
    "set (hospitals_names (names (infrastructure_of (infra_of els)))) = names_where is_hospital els"
    "set (schools_names (names (infrastructure_of (infra_of els)))) = names_where is_school els"
    "set (colleges_names (names (infrastructure_of (infra_of els)))) = names_where is_college els"
    "set (railwayStations_names (names (infrastructure_of (infra_of els)))) =
        names_where is_railway_station els"
    "set (metroStations_names (names (infrastructure_of (infra_of els)))) =
        names_where is_metro_station els"
    by (simp_all add: infrastructure_of_def spread_def infra_of_sets)
  have dist:
    "distinct (hospitals_names (names (infrastructure_of (infra_of els))))"
    "distinct (schools_names (names (infrastructure_of (infra_of els))))"
    "distinct (colleges_names (names (infrastructure_of (infra_of els))))"
    "distinct (railwayStations_names (names (infrastructure_of (infra_of els))))"
    "distinct (metroStations_names (names (infrastructure_of (infra_of els))))"
    by (simp_all add: infrastructure_of_def spread_def infra_of_distinct)
  have counts:
    "hospitals_count (infrastructure_of (infra_of els)) = card (names_where is_hospital els)"
    "schools_count (infrastructure_of (infra_of els)) = card (names_where is_school els)"
    "colleges_count (infrastructure_of (infra_of els)) = card (names_where is_college els)"
    "railwayStations_count (infrastructure_of (infra_of els)) =
        card (names_where is_railway_station els)"
    "metroStations_count (infrastructure_of (infra_of els)) =
        card (names_where is_metro_station els)"
    by (simp_all add: infrastructure_of_def set_size_def infra_of_sets)
  have unnamed:
    "tags_of el ''name'' = None \<or> tags_of el ''name'' = Some [] \<longrightarrow> infra_visit acc el = acc"
    using infra_visit_unnamed by blast
  have twice:
    "has_name el n \<and> has_name el' n \<and> is_hospital el \<and> is_hospital el' \<longrightarrow>
        hospitals (infra_visit (infra_visit acc el) el') = hospitals (infra_visit acc el)"
    "has_name el n \<and> has_name el' n \<and> is_school el \<and> is_school el' \<longrightarrow>
        schools (infra_visit (infra_visit acc el) el') = schools (infra_visit acc el)"
    "has_name el n \<and> has_name el' n \<and> is_college el \<and> is_college el' \<longrightarrow>
        colleges (infra_visit (infra_visit acc el) el') = colleges (infra_visit acc el)"
    "has_name el n \<and> has_name el' n \<and> is_railway_station el \<and> is_railway_station el' \<longrightarrow>
        railwayStations (infra_visit (infra_visit acc el) el') =
          railwayStations (infra_visit acc el)"
    "has_name el n \<and> has_name el' n \<and> is_metro_station el \<and> is_metro_station el' \<longrightarrow>
        metroStations (infra_visit (infra_visit acc el) el') = metroStations (infra_visit acc el)"
    using visit_twice [of hospitals infra_visit is_hospital, OF hospitals_visit, of el n el' acc]
      visit_twice [of schools infra_visit is_school, OF schools_visit, of el n el' acc]
      visit_twice [of colleges infra_visit is_college, OF colleges_visit, of el n el' acc]
      visit_twice [of railwayStations infra_visit is_railway_station, OF railwayStations_visit,
        of el n el' acc]
      visit_twice [of metroStations infra_visit is_metro_station, OF metroStations_visit,
        of el n el' acc]
    by blast+
  from sets dist counts unnamed twice show ?thesis by (intro conjI)
qed

theorem infra_names_are_the_distinct_names_witness:
  "tags_of (poi [(''amenity'', ''hospital'')]) ''name'' = None
   \<and> infra_visit infra_new (poi [(''amenity'', ''hospital'')]) = infra_new
   \<and> has_name (poi [(''name'', ''City Hospital''), (''amenity'', ''hospital'')]) ''City Hospital''
   \<and> is_hospital (poi [(''name'', ''City Hospital''), (''amenity'', ''hospital'')])
   \<and> hospitals
        (infra_visit
           (infra_visit infra_new (poi [(''name'', ''City Hospital''), (''amenity'', ''hospital'')]))
           (poi [(''name'', ''City Hospital''), (''amenity'', ''hospital'')])) =
        [''City Hospital'']
   \<and> hospitals_names (names (infrastructure_of (infra_of sample_points))) =
        [''City Hospital'', ''city hospital'']
   \<and> names_where is_hospital sample_points = {''City Hospital'', ''city hospital''}
   \<and> hospitals_count (infrastructure_of (infra_of sample_points)) = 2"
proof -
  let ?u = "poi [(''amenity'', ''hospital'')]"
  let ?p = "poi [(''name'', ''City Hospital''), (''amenity'', ''hospital'')]"
  have u: "tags_of ?u ''name'' = None"
    by code_simp
  have p: "has_name ?p ''City Hospital''" "is_hospital ?p"
    by code_simp+
  have once: "hospitals (infra_visit infra_new ?p) = [''City Hospital'']"
    by code_simp
  have listed: "hospitals_names (names (infrastructure_of (infra_of sample_points))) =
      [''City Hospital'', ''city hospital'']"
    by code_simp
  note unnamed = infra_names_are_the_distinct_names
    [where el = ?u and acc = infra_new,
     THEN conjunct2,
     THEN conjunct2,
     THEN conjunct2,
     THEN conjunct2,
     THEN conjunct2,
     THEN conjunct2,
     THEN conjunct2,
     THEN conjunct2,
     THEN conjunct2,
     THEN conjunct2,
     THEN conjunct2,
     THEN conjunct2,
     THEN conjunct2,
     THEN conjunct2,
     THEN conjunct2,
     THEN conjunct1]
  from unnamed u have r1: "infra_visit infra_new ?u = infra_new"
    by simp
  note twice = infra_names_are_the_distinct_names
    [where el = ?p and acc = infra_new and n = "''City Hospital''" and el' = ?p,
     THEN conjunct2,
     THEN conjunct2,
     THEN conjunct2,
     THEN conjunct2,
     THEN conjunct2,
     THEN conjunct2,
     THEN conjunct2,
     THEN conjunct2,
     THEN conjunct2,
     THEN conjunct2,
     THEN conjunct2,
     THEN conjunct2,
     THEN conjunct2,
     THEN conjunct2,
     THEN conjunct2,
     THEN conjunct2,
     THEN conjunct1]
  from twice p have "hospitals (infra_visit (infra_visit infra_new ?p) ?p) =
      hospitals (infra_visit infra_new ?p)"
    by simp
  with once have r2: "hospitals (infra_visit (infra_visit infra_new ?p) ?p) = [''City Hospital'']"
    by simp
  note members = infra_names_are_the_distinct_names
    [where els = sample_points, THEN conjunct1]
  have r3: "names_where is_hospital sample_points = {''City Hospital'', ''city hospital''}"
    unfolding members [symmetric] listed by simp
  note counted = infra_names_are_the_distinct_names
    [where els = sample_points,
     THEN conjunct2,
     THEN conjunct2,
     THEN conjunct2,
     THEN conjunct2,
     THEN conjunct2,
     THEN conjunct2,
     THEN conjunct2,
     THEN conjunct2,
     THEN conjunct2,
     THEN conjunct2,
     THEN conjunct1]
  have r4: "hospitals_count (infrastructure_of (infra_of sample_points)) = 2"
    unfolding counted r3 by simp
  from u r1 p r2 listed r3 r4 show ?thesis by (intro conjI)
qed

lemma names_where_iff:
  "n \<in> names_where P els \<longleftrightarrow> (\<exists>el\<in>set els. has_name el n \<and> P el)"
  by (simp add: names_where_def)

text \<open>
  Claim C7. A visit of a point named \<open>n\<close> adds \<open>n\<close> to the railway stations exactly when
  the point has \<^verbatim>\<open>railway=station\<close> and its \<^verbatim>\<open>station\<close> tag is not \<^verbatim>\<open>subway\<close>, and to the
  metro stations exactly when it has \<^verbatim>\<open>station=subway\<close>, or \<^verbatim>\<open>railway=subway_entrance\<close>, or
  both \<^verbatim>\<open>public_transport=station\<close> and \<^verbatim>\<open>subway=yes\<close>; otherwise the set is left as it
  was. So a name is among the railway (metro) stations of a list of points exactly when
  the list has a point of that name that satisfies the railway (metro) rule.
\<close>

theorem station_classification:
  "(has_name el n \<longrightarrow>
      railwayStations (infra_visit acc el) =
        (if tags_of el ''railway'' = Some ''station'' \<and> tags_of el ''station'' \<noteq> Some ''subway''
         then set_add (railwayStations acc) n else railwayStations acc)
      \<and> metroStations (infra_visit acc el) =
        (if tags_of el ''station'' = Some ''subway''
            \<or> tags_of el ''railway'' = Some ''subway_entrance''
            \<or> (tags_of el ''public_transport'' = Some ''station''
                \<and> tags_of el ''subway'' = Some ''yes'')
         then set_add (metroStations acc) n else metroStations acc)
      \<and> (n \<in> set (railwayStations (infra_visit infra_new el)) \<longleftrightarrow>
           tags_of el ''railway'' = Some ''station'' \<and> tags_of el ''station'' \<noteq> Some ''subway'')
      \<and> (n \<in> set (metroStations (infra_visit infra_new el)) \<longleftrightarrow>
           tags_of el ''station'' = Some ''subway''
           \<or> tags_of el ''railway'' = Some ''subway_entrance''
           \<or> (tags_of el ''public_transport'' = Some ''station''
               \<and> tags_of el ''subway'' = Some ''yes'')))
   \<and> (m \<in> set (railwayStations (infra_of els)) \<longleftrightarrow>
        (\<exists>p\<in>set els. has_name p m
           \<and> tags_of p ''railway'' = Some ''station'' \<and> tags_of p ''station'' \<noteq> Some ''subway''))
   \<and> (m \<in> set (metroStations (infra_of els)) \<longleftrightarrow>
        (\<exists>p\<in>set els. has_name p m
           \<and> (tags_of p ''station'' = Some ''subway''
              \<or> tags_of p ''railway'' = Some ''subway_entrance''
              \<or> (tags_of p ''public_transport'' = Some ''station''
                  \<and> tags_of p ''subway'' = Some ''yes''))))"
proof -
  have one: "railwayStations (infra_visit acc el) =
        (if is_railway_station el then set_add (railwayStations acc) n else railwayStations acc)
      \<and> metroStations (infra_visit acc el) =
        (if is_metro_station el then set_add (metroStations acc) n else metroStations acc)
      \<and> (n \<in> set (railwayStations (infra_visit infra_new el)) \<longleftrightarrow> is_railway_station el)
      \<and> (n \<in> set (metroStations (infra_visit infra_new el)) \<longleftrightarrow> is_metro_station el)"
    if "has_name el n"
    using that by (simp add: infra_visit_named infra_new_def set_set_add)
  have many: "m \<in> set (railwayStations (infra_of els)) \<longleftrightarrow>
        (\<exists>p\<in>set els. has_name p m \<and> is_railway_station p)"
    "m \<in> set (metroStations (infra_of els)) \<longleftrightarrow>
        (\<exists>p\<in>set els. has_name p m \<and> is_metro_station p)"
    by (simp_all add: infra_of_sets names_where_iff)
  from one many show ?thesis
    unfolding is_railway_station_def is_metro_station_def by blast
qed

theorem station_classification_witness:
  "has_name (poi [(''name'', ''Rajiv Chowk''), (''railway'', ''station''), (''station'', ''subway'')])
     ''Rajiv Chowk''
   \<and> ''Rajiv Chowk'' \<notin> set (railwayStations (infra_visit infra_new
         (poi [(''name'', ''Rajiv Chowk''), (''railway'', ''station''), (''station'', ''subway'')])))
   \<and> ''Rajiv Chowk'' \<in> set (metroStations (infra_visit infra_new
         (poi [(''name'', ''Rajiv Chowk''), (''railway'', ''station''), (''station'', ''subway'')])))
   \<and> has_name (poi [(''name'', ''New Delhi''), (''railway'', ''station'')]) ''New Delhi''
   \<and> ''New Delhi'' \<in> set (railwayStations (infra_visit infra_new
         (poi [(''name'', ''New Delhi''), (''railway'', ''station'')])))
   \<and> ''New Delhi'' \<notin> set (metroStations (infra_visit infra_new
         (poi [(''name'', ''New Delhi''), (''railway'', ''station'')])))"
proof -
  let ?metro = "poi [(''name'', ''Rajiv Chowk''), (''railway'', ''station''), (''station'', ''subway'')]"
  let ?rail = "poi [(''name'', ''New Delhi''), (''railway'', ''station'')]"
  have m: "has_name ?metro ''Rajiv Chowk''"
    by code_simp
  have mt: "tags_of ?metro ''railway'' = Some ''station''" "tags_of ?metro ''station'' = Some ''subway''"
    by code_simp+
  have r: "has_name ?rail ''New Delhi''"
    by code_simp
  have rt: "tags_of ?rail ''railway'' = Some ''station''" "tags_of ?rail ''station'' = None"
    "tags_of ?rail ''public_transport'' = None"
    by code_simp+
  note t1 = station_classification
    [where el = ?metro and n = "''Rajiv Chowk''" and acc = infra_new, THEN conjunct1]
  from t1 m mt
  have a: "''Rajiv Chowk'' \<notin> set (railwayStations (infra_visit infra_new ?metro))
      \<and> ''Rajiv Chowk'' \<in> set (metroStations (infra_visit infra_new ?metro))"
    by (simp add: infra_new_def set_set_add)
  note t2 = station_classification
    [where el = ?rail and n = "''New Delhi''" and acc = infra_new, THEN conjunct1]
  from t2 r rt
  have b: "''New Delhi'' \<in> set (railwayStations (infra_visit infra_new ?rail))
      \<and> ''New Delhi'' \<notin> set (metroStations (infra_visit infra_new ?rail))"
    by (simp add: infra_new_def set_set_add)
  from m a r b show ?thesis by (intro conjI) simp_all
qed

text \<open>
  Claim C9. In every report the handler assembles, each of the five infrastructure counts
  is the length of the name list of the same category under \<^verbatim>\<open>names\<close>, and the count of
  the rivers and of the other water bodies is the length of its \<^verbatim>\<open>names\<close>.
\<close>

theorem report_counts_are_list_lengths:
  "handler lit up q = (calls, Reply code (ReportBody r)) \<longrightarrow>
     hospitals_count (infrastructure r) = length (hospitals_names (names (infrastructure r)))
     \<and> schools_count (infrastructure r) = length (schools_names (names (infrastructure r)))
     \<and> colleges_count (infrastructure r) = length (colleges_names (names (infrastructure r)))
     \<and> railwayStations_count (infrastructure r) =
          length (railwayStations_names (names (infrastructure r)))
     \<and> metroStations_count (infrastructure r) =
          length (metroStations_names (names (infrastructure r)))
     \<and> group_count (rivers_group (waterBodies r)) = length (group_names (rivers_group (waterBodies r)))
     \<and> group_count (otherWaterBodies (waterBodies r)) =
          length (group_names (otherWaterBodies (waterBodies r)))"
proof
  assume "handler lit up q = (calls, Reply code (ReportBody r))"
  then obtain els1 els2 where
    i: "infrastructure r = infrastructure_of (infra_of els1)" and
    w: "waterBodies r = waterBodies_of (water_of els2)"
    by (rule handler_reportE) simp
  show "hospitals_count (infrastructure r) = length (hospitals_names (names (infrastructure r)))
     \<and> schools_count (infrastructure r) = length (schools_names (names (infrastructure r)))
     \<and> colleges_count (infrastructure r) = length (colleges_names (names (infrastructure r)))
     \<and> railwayStations_count (infrastructure r) =
          length (railwayStations_names (names (infrastructure r)))
     \<and> metroStations_count (infrastructure r) =
          length (metroStations_names (names (infrastructure r)))
     \<and> group_count (rivers_group (waterBodies r)) = length (group_names (rivers_group (waterBodies r)))
     \<and> group_count (otherWaterBodies (waterBodies r)) =
          length (group_names (otherWaterBodies (waterBodies r)))"
    unfolding i w
    using infrastructure_of_counts [of els1] waterBodies_of_counts [of els2]
    by (intro conjI)
qed

theorem report_counts_are_list_lengths_witness:
  "handler sample_lit (sample_world True) (Some ''Delhi'') =
     (sample_calls, Reply 200 (ReportBody (sample_report (Section sample_section))))
   \<and> hospitals_names (names (infrastructure (sample_report (Section sample_section)))) =
        [''City Hospital'', ''city hospital'']
   \<and> hospitals_count (infrastructure (sample_report (Section sample_section))) = 2
   \<and> group_names (rivers_group (waterBodies (sample_report (Section sample_section)))) = [''Yamuna'']
   \<and> group_count (rivers_group (waterBodies (sample_report (Section sample_section)))) = 1"
proof -
  let ?r = "sample_report (Section sample_section)"
  have names: "hospitals_names (names (infrastructure ?r)) = [''City Hospital'', ''city hospital'']"
    "group_names (rivers_group (waterBodies ?r)) = [''Yamuna'']"
    by (simp_all add: sample_report_def)
  from report_counts_are_list_lengths
    [where lit = sample_lit and up = "sample_world True" and q = "Some ''Delhi''"
       and calls = sample_calls and code = 200 and r = ?r]
    sample_reply_assigned
  have "hospitals_count (infrastructure ?r) = length (hospitals_names (names (infrastructure ?r)))"
    and "group_count (rivers_group (waterBodies ?r)) =
      length (group_names (rivers_group (waterBodies ?r)))"
    by blast+
  with names have "hospitals_count (infrastructure ?r) = 2"
    and "group_count (rivers_group (waterBodies ?r)) = 1"
    by simp_all
  with sample_reply_assigned names show ?thesis by (intro conjI)
qed

text \<open>
  Claim C8. A request whose \<^verbatim>\<open>city\<close> parameter is absent or empty is answered with status
  400 and the error body \<^verbatim>\<open>City is required\<close>, and no upstream call is issued for it,
  whatever the upstream services would do. These are the only requests for which the
  handler issues no call.
\<close>

theorem missing_city_is_400_without_calls:
  "handler lit up None = ([], Reply 400 (ErrorBody ''City is required''))
   \<and> handler lit up (Some []) = ([], Reply 400 (ErrorBody ''City is required''))
   \<and> ((fst (handler lit up q) = []) = (q = None \<or> q = Some []))"
proof -
  have a: "handler lit up None = ([], Reply 400 (ErrorBody ''City is required''))"
    by (simp add: handler_def)
  have b: "handler lit up (Some []) = ([], Reply 400 (ErrorBody ''City is required''))"
    by (simp add: handler_def)
  have c: "fst (handler lit up (Some cn)) \<noteq> []" if "cn \<noteq> []" for cn
    using that
    by (simp add: handler_def Let_def
          split: sum.splits list.splits promise.splits prod.splits)
  have "(fst (handler lit up q) = []) = (q = None \<or> q = Some [])"
  proof (cases q)
    case None
    with a show ?thesis by simp
  next
    case (Some cn)
    with b c [of cn] show ?thesis by (cases "cn = []") simp_all
  qed
  with a b show ?thesis by (intro conjI)
qed

text \<open>
  Claim C1, on the sample request. Every upstream service answers, the air-quality
  services included, but the detached task has not assigned \<^verbatim>\<open>airQualityString\<close> by the
  time the handler assembles its reply: the reply has status 200 and its \<^verbatim>\<open>airQuality\<close> is
  the empty string, not an object with \<^verbatim>\<open>currentAQI\<close> and \<^verbatim>\<open>history\<close>.
\<close>

theorem airQuality_is_empty_string_when_unassigned:
  "handler sample_lit (sample_world False) (Some ''Delhi'') =
     (sample_calls, Reply 200 (ReportBody (sample_report EmptyString)))
   \<and> airQuality (sample_report EmptyString) = EmptyString
   \<and> getAQISection (waqi (sample_world False) (Fin (286139 / 10000)) (Fin (77209 / 1000)))
        (air_quality_api (sample_world False) (Fin (286139 / 10000)) (Fin (77209 / 1000))) =
      sample_section"
proof -
  have "airQuality (sample_report EmptyString) = EmptyString"
    by (simp add: sample_report_def)
  moreover
  have "getAQISection (waqi (sample_world False) (Fin (286139 / 10000)) (Fin (77209 / 1000)))
        (air_quality_api (sample_world False) (Fin (286139 / 10000)) (Fin (77209 / 1000))) =
      sample_section"
    by code_simp
  ultimately show ?thesis
    using sample_reply_unassigned by (intro conjI)
qed

subsection \<open>The air-quality section\<close>

text \<open>
  What holds of the air-quality section. Neither sub-call can fail: a throw of the
  current-AQI fetch or of its \<^verbatim>\<open>json()\<close>, a feed whose status is not \<^verbatim>\<open>ok\<close> and a feed without
  data each give the no-data reading; a throw of the history fetch or of its \<^verbatim>\<open>json()\<close> and
  a payload without \<^verbatim>\<open>hourly.pm2_5\<close> each give the empty history; each half of the section
  depends on its own call only. In a report the handler assembles, \<^verbatim>\<open>airQuality\<close> is this
  section, computed at the coordinates of the report, when the detached task has assigned
  it in time, and the empty string otherwise.
\<close>

theorem aqi_section_degrades_locally:
  "getCurrentAQI (NetworkError e) = no_data_reading
   \<and> (body_json res = Inl e \<longrightarrow> getCurrentAQI (Responded res) = no_data_reading)
   \<and> (body_json res = Inr d \<and> (feed_data d = None \<or> feed_status d \<noteq> Some ''ok'') \<longrightarrow>
        getCurrentAQI (Responded res) = no_data_reading)
   \<and> no_data_reading =
        \<lparr>aqi = None, category = ''No data'', pollutants = [], dominentPollutant = None,
         time = None\<rparr>
   \<and> getAQIHistory (NetworkError e) = []
   \<and> (body_json res' = Inl e \<longrightarrow> getAQIHistory (Responded res') = [])
   \<and> (body_json res' = Inr d' \<and> (hourly d' = None \<or> (\<exists>h. hourly d' = Some h \<and> pm2_5 h = None)) \<longrightarrow>
        getAQIHistory (Responded res') = [])
   \<and> currentAQI (getAQISection cur hist) = getCurrentAQI cur
   \<and> history (getAQISection cur hist) = getAQIHistory hist
   \<and> (handler lit up q = (calls, Reply code (ReportBody r)) \<and> aqi_assigned up \<longrightarrow>
        airQuality r =
          Section (getAQISection (waqi up (lat (city r)) (lon (city r)))
                     (air_quality_api up (lat (city r)) (lon (city r)))))
   \<and> (handler lit up q = (calls, Reply code (ReportBody r)) \<and> \<not> aqi_assigned up \<longrightarrow>
        airQuality r = EmptyString)"
proof -
  have a: "getCurrentAQI (NetworkError e) = no_data_reading"
    by (simp add: getCurrentAQI_def)
  have b: "body_json res = Inl e \<longrightarrow> getCurrentAQI (Responded res) = no_data_reading"
    by (simp add: getCurrentAQI_def)
  have c: "body_json res = Inr d \<and> (feed_data d = None \<or> feed_status d \<noteq> Some ''ok'') \<longrightarrow>
        getCurrentAQI (Responded res) = no_data_reading"
    by (auto simp: getCurrentAQI_def split: option.splits)
  have d: "no_data_reading =
        \<lparr>aqi = None, category = ''No data'', pollutants = [], dominentPollutant = None,
         time = None\<rparr>"
    by (simp add: no_data_reading_def)
  have f: "getAQIHistory (NetworkError e) = []"
    by (simp add: getAQIHistory_def)
  have g: "body_json res' = Inl e \<longrightarrow> getAQIHistory (Responded res') = []"
    by (simp add: getAQIHistory_def)
  have h: "body_json res' = Inr d' \<and> (hourly d' = None \<or> (\<exists>h. hourly d' = Some h \<and> pm2_5 h = None)) \<longrightarrow>
        getAQIHistory (Responded res') = []"
    by (auto simp: getAQIHistory_def)
  have i: "currentAQI (getAQISection cur hist) = getCurrentAQI cur"
    "history (getAQISection cur hist) = getAQIHistory hist"
    by (simp_all add: getAQISection_def)
  have j: "handler lit up q = (calls, Reply code (ReportBody r)) \<and> aqi_assigned up \<longrightarrow>
        airQuality r =
          Section (getAQISection (waqi up (lat (city r)) (lon (city r)))
                     (air_quality_api up (lat (city r)) (lon (city r))))"
  proof
    assume p: "handler lit up q = (calls, Reply code (ReportBody r)) \<and> aqi_assigned up"
    then have run: "handler lit up q = (calls, Reply code (ReportBody r))"
      and assigned: "aqi_assigned up"
      by simp_all
    from run show "airQuality r =
          Section (getAQISection (waqi up (lat (city r)) (lon (city r)))
                     (air_quality_api up (lat (city r)) (lon (city r))))"
      by (rule handler_reportE) (simp add: assigned)
  qed
  have k: "handler lit up q = (calls, Reply code (ReportBody r)) \<and> \<not> aqi_assigned up \<longrightarrow>
        airQuality r = EmptyString"
  proof
    assume p: "handler lit up q = (calls, Reply code (ReportBody r)) \<and> \<not> aqi_assigned up"
    then have run: "handler lit up q = (calls, Reply code (ReportBody r))"
      and pending: "\<not> aqi_assigned up"
      by simp_all
    from run show "airQuality r = EmptyString"
      by (rule handler_reportE) (simp add: pending)
  qed
  from a b c d f g h i j k show ?thesis by (intro conjI)
qed

theorem aqi_section_degrades_locally_witness:
  "getAQISection (NetworkError ''fetch failed'') (answer sample_hourly) =
     \<lparr>currentAQI =
        \<lparr>aqi = None, category = ''No data'', pollutants = [], dominentPollutant = None,
         time = None\<rparr>,
      history = history sample_section\<rparr>
   \<and> getAQISection (answer sample_feed) (NetworkError ''fetch failed'') =
     \<lparr>currentAQI = currentAQI sample_section, history = []\<rparr>
   \<and> airQuality (sample_report (Section sample_section)) = Section sample_section"
proof -
  have cur: "getCurrentAQI (answer sample_feed) = currentAQI sample_section"
    by code_simp
  have hist: "getAQIHistory (answer sample_hourly) = history sample_section"
    by code_simp
  note t = aqi_section_degrades_locally
    [where e = "''fetch failed''" and cur = "NetworkError ''fetch failed''"
       and hist = "answer sample_hourly"]
  have c1: "currentAQI (getAQISection (NetworkError ''fetch failed'') (answer sample_hourly)) =
      \<lparr>aqi = None, category = ''No data'', pollutants = [], dominentPollutant = None,
       time = None\<rparr>"
    using t [THEN conjunct1]
      t [THEN conjunct2, THEN conjunct2, THEN conjunct2, THEN conjunct1]
      t [THEN conjunct2, THEN conjunct2, THEN conjunct2, THEN conjunct2, THEN conjunct2,
         THEN conjunct2, THEN conjunct2, THEN conjunct1]
    by simp
  have h1: "history (getAQISection (NetworkError ''fetch failed'') (answer sample_hourly)) =
      history sample_section"
    using t [THEN conjunct2, THEN conjunct2, THEN conjunct2, THEN conjunct2, THEN conjunct2,
             THEN conjunct2, THEN conjunct2, THEN conjunct2, THEN conjunct1] hist
    by simp
  have r1: "getAQISection (NetworkError ''fetch failed'') (answer sample_hourly) =
     \<lparr>currentAQI =
        \<lparr>aqi = None, category = ''No data'', pollutants = [], dominentPollutant = None,
         time = None\<rparr>,
      history = history sample_section\<rparr>"
    using c1 h1 by (cases "getAQISection (NetworkError ''fetch failed'') (answer sample_hourly)") simp
  have r2: "getAQISection (answer sample_feed) (NetworkError ''fetch failed'') =
     \<lparr>currentAQI = currentAQI sample_section, history = []\<rparr>"
    using cur by (simp add: getAQISection_def getAQIHistory_def)
  have r3: "airQuality (sample_report (Section sample_section)) = Section sample_section"
    by (simp add: sample_report_def)
  from r1 r2 r3 show ?thesis by (intro conjI)
qed

end
